theory Spec2Isabelle
  imports Complex_Main "HOL-Library.AList"
begin

section \<open>Card journey tracker: data model\<close>

text \<open>
  The backend keeps one document per card in the collection \<open>card_journeys\<close>
  (models/CardJourney.js), changes it through services/cardService.js, derives delay
  statistics in services/analyticsService.js and pushes notifications to WebSocket
  subscribers (config/websocket.js). Stages are plain strings in the source and stay
  strings here; instants are milliseconds since the epoch (\<open>Date.now()\<close>), an integer.
  A field that JavaScript leaves \<open>undefined\<close> is \<open>None\<close>.
\<close>

datatype jsval =
    JStr string
  | JNum int
  | JDate int
  | JNull
  | JArr "jsval list"
  | JObj "(string \<times> jsval) list"

type_synonym jsobject = "(string \<times> jsval) list"

text \<open>journeyEventSchema. The event's \<open>failureReason\<close> is called \<open>evFailureReason\<close>
  here, since the card document has a field of the same name.\<close>

record journey_event =
  stage :: string
  timestamp :: int
  source :: string
  location :: "string option"
  operatorId :: "string option"
  batchId :: "string option"
  trackingId :: "string option"
  previousStage :: "string option"
  evFailureReason :: "string option"
  durationMinutes :: "int option"
  eventData :: jsobject

text \<open>cardJourneySchema, with the two fields \<open>timestamps: true\<close> adds.\<close>

record card_journey =
  cardId :: string
  customerId :: string
  customerName :: "string option"
  mobileNumber :: "string option"
  panMasked :: string
  applicationId :: "string option"
  currentStatus :: string
  priority :: string
  address :: "string option"
  estimatedDelivery :: "int option"
  actualDelivery :: "int option"
  failureReason :: "string option"
  retryCount :: int
  journey :: "journey_event list"
  metadata :: jsobject
  createdAt :: int
  updatedAt :: int

text \<open>The two enum lists of the schema, as written in models/CardJourney.js.\<close>

definition stage_enum :: "string list" where
  "stage_enum =
    [''APPROVED'', ''QUEUED_FOR_EMBOSSING'', ''IN_EMBOSSING'', ''EMBOSSING_COMPLETE'',
     ''EMBOSSING_FAILED'', ''DISPATCHED'', ''IN_TRANSIT'', ''OUT_FOR_DELIVERY'',
     ''DELIVERED'', ''DELIVERY_FAILED'', ''RETURNED'', ''DESTROYED'']"

definition priority_enum :: "string list" where
  "priority_enum = [''STANDARD'', ''EXPRESS'', ''URGENT'']"

text \<open>The request bodies of \<open>createCard\<close> and \<open>updateCardStatus\<close>, as destructured.\<close>

record card_data =
  cd_cardId :: "string option"
  cd_customerId :: "string option"
  cd_customerName :: "string option"
  cd_mobileNumber :: "string option"
  cd_panMasked :: "string option"
  cd_applicationId :: "string option"
  cd_priority :: "string option"
  cd_address :: "string option"
  cd_message :: "string option"

record status_data =
  sd_status :: "string option"
  sd_source :: "string option"
  sd_location :: "string option"
  sd_operatorId :: "string option"
  sd_batchId :: "string option"
  sd_trackingId :: "string option"
  sd_failureReason :: "string option"
  sd_eventData :: "jsobject option"

text \<open>A WebSocket subscriber: its \<open>readyState\<close>, whether \<open>send\<close> throws on it, and
  the messages written to it so far. \<open>handle\<close> stands for the object's identity in the
  JavaScript \<open>Set\<close>.\<close>

datatype ready_state = CONNECTING | OPEN | CLOSING | CLOSED

record message =
  msg_type :: string
  msg_data :: jsobject
  msg_timestamp :: int

record client =
  handle :: nat
  readyState :: ready_state
  sendThrows :: bool
  inbox :: "message list"

text \<open>The state the service works on: the collection in insertion order, the
  subscriber set in insertion order, the SMS requests handed to the SMS service
  (user id and template) and the number of bottleneck analyses scheduled with
  \<open>setImmediate\<close>.\<close>

record state =
  cards :: "card_journey list"
  connectedClients :: "client list"
  smsOutbox :: "(string \<times> string) list"
  analysisScheduled :: nat

datatype error =
    MissingFields
  | CardNotFound
  | CardIdExists
  | ValidationError
  | QueryTooShort
  | InvalidRegExp

section \<open>JavaScript helpers\<close>

text \<open>Truthiness of a string-valued field: \<open>undefined\<close> and the empty string are falsy.
  Below, \<open>the\<close> reads a field only where the function has already found it truthy.\<close>

fun truthy :: "string option \<Rightarrow> bool" where
  "truthy None = False"
| "truthy (Some s) = (s \<noteq> [])"

text \<open>\<open>toUpperCase\<close> and \<open>toLowerCase\<close> on the ASCII letters.\<close>

definition upper_of :: "char \<Rightarrow> char" where
  "upper_of c =
     (case map_of (zip ''abcdefghijklmnopqrstuvwxyz'' ''ABCDEFGHIJKLMNOPQRSTUVWXYZ'') c of
        Some u \<Rightarrow> u | None \<Rightarrow> c)"

definition lower_of :: "char \<Rightarrow> char" where
  "lower_of c =
     (case map_of (zip ''ABCDEFGHIJKLMNOPQRSTUVWXYZ'' ''abcdefghijklmnopqrstuvwxyz'') c of
        Some l \<Rightarrow> l | None \<Rightarrow> c)"

definition toUpperCase :: "string \<Rightarrow> string" where
  "toUpperCase s = map upper_of s"

definition toLowerCase :: "string \<Rightarrow> string" where
  "toLowerCase s = map lower_of s"

definition startsWith :: "string \<Rightarrow> string \<Rightarrow> bool" where
  "startsWith s p = (take (length p) s = p)"

text \<open>\<open>s.includes(p)\<close>: \<open>p\<close> occurs in \<open>s\<close> as a contiguous piece.\<close>

fun str_includes :: "string \<Rightarrow> string \<Rightarrow> bool" where
  "str_includes [] p = (p = [])"
| "str_includes (c # cs) p = (startsWith (c # cs) p \<or> str_includes cs p)"

text \<open>\<open>s.slice(-n)\<close>: the last \<open>n\<close> characters, all of \<open>s\<close> when it is shorter.\<close>

definition slice_last :: "nat \<Rightarrow> 'a list \<Rightarrow> 'a list" where
  "slice_last n s = drop (length s - n) s"

text \<open>\<open>s.split(',')\<close>, \<open>parts.join(',')\<close> and \<open>s.trim()\<close> (ASCII white space).\<close>

fun split_on :: "char \<Rightarrow> string \<Rightarrow> string list" where
  "split_on d [] = [[]]"
| "split_on d (c # cs) =
     (if c = d then [] # split_on d cs
      else (case split_on d cs of
              [] \<Rightarrow> [[c]]
            | p # ps \<Rightarrow> (c # p) # ps))"

fun join_with :: "char \<Rightarrow> string list \<Rightarrow> string" where
  "join_with d [] = []"
| "join_with d [p] = p"
| "join_with d (p # q # ps) = p @ d # join_with d (q # ps)"

definition is_space :: "char \<Rightarrow> bool" where
  "is_space c = (c \<in> set [CHR '' '', CHR 0x09, CHR 0x0A, CHR 0x0B, CHR 0x0C, CHR 0x0D])"

definition trim :: "string \<Rightarrow> string" where
  "trim s = rev (dropWhile is_space (rev (dropWhile is_space s)))"

text \<open>\<open>Math.round(a / b)\<close> for integers \<open>a\<close> and \<open>b > 0\<close>: the nearest integer, a
  half rounded up. The quotients that occur (differences of clock readings over 60000,
  sums of two durations over 2) are far below the size at which the floating-point
  quotient could land on the other side of a half, so the integer formula is exact.\<close>

definition math_round_div :: "int \<Rightarrow> int \<Rightarrow> int" where
  "math_round_div a b = (2 * a + b) div (2 * b)"

definition opt_field :: "string \<Rightarrow> string option \<Rightarrow> jsobject" where
  "opt_field k v = (case v of None \<Rightarrow> [] | Some s \<Rightarrow> [(k, JStr s)])"

definition opt_date :: "string \<Rightarrow> int option \<Rightarrow> jsobject" where
  "opt_date k v = (case v of None \<Rightarrow> [] | Some t \<Rightarrow> [(k, JDate t)])"

definition opt_num :: "string \<Rightarrow> int option \<Rightarrow> jsobject" where
  "opt_num k v = (case v of None \<Rightarrow> [] | Some n \<Rightarrow> [(k, JNum n)])"

section \<open>config/websocket.js\<close>

text \<open>
  \<open>broadcast\<close> serialises the message once and walks the set. An open client gets the
  message unless \<open>send\<close> throws, in which case the client is deleted from the set. A
  client that is not open is passed over: the loop has no \<open>else\<close> branch. Deleting the
  current element while \<open>forEach\<close> runs does not disturb the visit of the others.
\<close>

fun broadcast_loop :: "message \<Rightarrow> client list \<Rightarrow> client list" where
  "broadcast_loop m [] = []"
| "broadcast_loop m (c # cs) =
     (if readyState c = OPEN then
        (if sendThrows c then broadcast_loop m cs
         else c\<lparr>inbox := inbox c @ [m]\<rparr> # broadcast_loop m cs)
      else c # broadcast_loop m cs)"

definition broadcast :: "int \<Rightarrow> string \<Rightarrow> jsobject \<Rightarrow> state \<Rightarrow> state" where
  "broadcast now ty dat st =
     st\<lparr>connectedClients :=
          broadcast_loop \<lparr>msg_type = ty, msg_data = dat, msg_timestamp = now\<rparr>
            (connectedClients st)\<rparr>"

text \<open>The sweep that \<open>initializeWebSocket\<close> installs with \<open>setInterval\<close>.\<close>

definition cleanup_sweep :: "client list \<Rightarrow> client list" where
  "cleanup_sweep cs = filter (\<lambda>c. readyState c = OPEN) cs"

section \<open>models/CardJourney.js: the document store\<close>

definition findOne :: "string \<Rightarrow> card_journey list \<Rightarrow> card_journey option" where
  "findOne cid cs = find (\<lambda>j. cardId j = cid) cs"

text \<open>
  \<open>save()\<close> validates the document against the schema before it writes: the required
  paths must be non-empty and every enum path must hold a member of its list, for the
  card and for each event of \<open>journey\<close>. The unique index on \<open>cardId\<close> then rejects a
  second document with the same id (error code 11000).
\<close>

definition valid_event :: "journey_event \<Rightarrow> bool" where
  "valid_event e = (stage e \<in> set stage_enum \<and> source e \<noteq> [])"

definition validate :: "card_journey \<Rightarrow> bool" where
  "validate d =
     (cardId d \<noteq> [] \<and> customerId d \<noteq> [] \<and> truthy (mobileNumber d) \<and> panMasked d \<noteq> [] \<and>
      currentStatus d \<in> set stage_enum \<and> priority d \<in> set priority_enum \<and>
      list_all valid_event (journey d))"

datatype save_error = SchemaValidation | DuplicateKey

definition save_new :: "int \<Rightarrow> card_journey \<Rightarrow> card_journey list \<Rightarrow> save_error + card_journey list" where
  "save_new now d cs =
     (if \<not> validate d then Inl SchemaValidation
      else if findOne (cardId d) cs \<noteq> None then Inl DuplicateKey
      else Inr (cs @ [d\<lparr>createdAt := now, updatedAt := now\<rparr>]))"

text \<open>Writing a changed document back, first match by id, as \<open>findOneAndUpdate\<close> does.\<close>

fun replace_first :: "string \<Rightarrow> card_journey \<Rightarrow> card_journey list \<Rightarrow> card_journey list" where
  "replace_first cid d [] = []"
| "replace_first cid d (j # js) =
     (if cardId j = cid then d # js else j # replace_first cid d js)"

text \<open>
  The instance method \<open>addJourneyEvent\<close>, up to its \<open>save()\<close>: push the event, copy its
  stage to \<open>currentStatus\<close>, stamp \<open>actualDelivery\<close> on DELIVERED, copy a failure reason.
  The event's \<open>timestamp\<close> is the one it was given, or else the instant of the push. No
  function of the source calls this method.
\<close>

definition addJourneyEvent_doc :: "journey_event \<Rightarrow> card_journey \<Rightarrow> card_journey" where
  "addJourneyEvent_doc ev d =
     (let d1 = d\<lparr>journey := journey d @ [ev], currentStatus := stage ev\<rparr>;
          d2 = (if stage ev = ''DELIVERED'' then d1\<lparr>actualDelivery := Some (timestamp ev)\<rparr>
                else d1);
          d3 = (if truthy (evFailureReason ev) then d2\<lparr>failureReason := evFailureReason ev\<rparr>
                else d2)
      in d3)"

section \<open>services/cardService.js\<close>

text \<open>\<open>toObject()\<close>: the plain object of a document, with the fields that are set. The
  keys \<open>_id\<close> and \<open>__v\<close> that the store adds are left out.\<close>

definition event_toObject :: "journey_event \<Rightarrow> jsobject" where
  "event_toObject e =
     [(''stage'', JStr (stage e)), (''timestamp'', JDate (timestamp e)),
      (''source'', JStr (source e))]
     @ opt_field ''location'' (location e) @ opt_field ''operatorId'' (operatorId e)
     @ opt_field ''batchId'' (batchId e) @ opt_field ''trackingId'' (trackingId e)
     @ opt_field ''previousStage'' (previousStage e)
     @ opt_field ''failureReason'' (evFailureReason e)
     @ opt_num ''durationMinutes'' (durationMinutes e)
     @ [(''eventData'', JObj (eventData e))]"

definition toObject :: "card_journey \<Rightarrow> jsobject" where
  "toObject d =
     [(''cardId'', JStr (cardId d)), (''customerId'', JStr (customerId d))]
     @ opt_field ''customerName'' (customerName d)
     @ opt_field ''mobileNumber'' (mobileNumber d)
     @ [(''panMasked'', JStr (panMasked d))]
     @ opt_field ''applicationId'' (applicationId d)
     @ [(''currentStatus'', JStr (currentStatus d)), (''priority'', JStr (priority d))]
     @ opt_field ''address'' (address d)
     @ opt_date ''estimatedDelivery'' (estimatedDelivery d)
     @ opt_date ''actualDelivery'' (actualDelivery d)
     @ opt_field ''failureReason'' (failureReason d)
     @ [(''retryCount'', JNum (retryCount d)),
        (''journey'', JArr (map (\<lambda>e. JObj (event_toObject e)) (journey d))),
        (''metadata'', JObj (metadata d)),
        (''createdAt'', JDate (createdAt d)), (''updatedAt'', JDate (updatedAt d))]"

text \<open>
  \<open>sanitizeCardData\<close>. The AES routines of utils/encryption.js rest on Node's
  \<open>crypto\<close>; \<open>dec\<close> stands for \<open>decrypt\<close> on a non-empty text, \<open>None\<close> when it throws.
\<close>

definition addressDisplay :: "string \<Rightarrow> string" where
  "addressDisplay decrypted =
     (let parts = split_on (CHR '','') decrypted
      in if length parts > 1 then trim (join_with (CHR '','') (slice_last 2 parts))
         else ''Address on file'')"

definition sanitizeCardData :: "(string \<Rightarrow> string option) \<Rightarrow> card_journey \<Rightarrow> jsobject" where
  "sanitizeCardData dec d =
     (let s0 = AList.delete ''address'' (AList.delete ''mobileNumber'' (toObject d));
          s1 = (if truthy (mobileNumber d) then
                  AList.update ''mobileDisplay''
                    (JStr (case dec (the (mobileNumber d)) of
                             Some decrypted \<Rightarrow> ''+91-****-**'' @ slice_last 4 decrypted
                           | None \<Rightarrow> ''+91-****-****'')) s0
                else s0);
          s2 = (if truthy (address d) then
                  AList.update ''addressDisplay''
                    (JStr (case dec (the (address d)) of
                             Some decrypted \<Rightarrow> addressDisplay decrypted
                           | None \<Rightarrow> ''Address on file'')) s1
                else s1)
      in s2)"

definition extractRegionFromAddress :: "string option \<Rightarrow> string" where
  "extractRegionFromAddress a =
     (if \<not> truthy a then ''Unknown''
      else (case find (\<lambda>kv. str_includes (toLowerCase (the a)) (fst kv))
                   [(''mumbai'', ''Mumbai''), (''delhi'', ''Delhi''), (''bangalore'', ''Bangalore''),
                    (''chennai'', ''Chennai''), (''hyderabad'', ''Hyderabad''), (''pune'', ''Pune''),
                    (''kolkata'', ''Kolkata'')] of
              Some kv \<Rightarrow> snd kv
            | None \<Rightarrow> ''Other''))"

text \<open>The multipliers 1.0, 1.1, 1.2 and 1.5, in tenths.\<close>

definition getLocationMultiplier :: "string \<Rightarrow> int" where
  "getLocationMultiplier region =
     (case map_of [(''Mumbai'', 10), (''Delhi'', 10), (''Bangalore'', 11), (''Chennai'', 11),
                   (''Hyderabad'', 11), (''Pune'', 12), (''Kolkata'', 12)] region of
        Some m \<Rightarrow> m | None \<Rightarrow> 15)"

text \<open>\<open>setHours\<close> drops the fraction of the hours it is given.\<close>

definition calculateEstimatedDelivery :: "int \<Rightarrow> string \<Rightarrow> string option \<Rightarrow> int" where
  "calculateEstimatedDelivery now prio a =
     (let baseHours = (if prio = ''EXPRESS'' then 72 else if prio = ''URGENT'' then 48 else 96);
          locationMultiplier = getLocationMultiplier (extractRegionFromAddress a)
      in now + ((baseHours * locationMultiplier) div 10) * 3600000)"

text \<open>The document \<open>createCard\<close> builds before it saves. \<open>enc\<close> stands for \<open>encrypt\<close>
  on a non-empty text.\<close>

definition newCardJourney :: "(string \<Rightarrow> string) \<Rightarrow> int \<Rightarrow> card_data \<Rightarrow> card_journey" where
  "newCardJourney enc now cd =
     (let prio = (case cd_priority cd of None \<Rightarrow> ''STANDARD'' | Some p \<Rightarrow> p);
          addr = cd_address cd
      in \<lparr>cardId = the (cd_cardId cd),
          customerId = the (cd_customerId cd),
          customerName = cd_customerName cd,
          mobileNumber = Some (enc (the (cd_mobileNumber cd))),
          panMasked = the (cd_panMasked cd),
          applicationId = cd_applicationId cd,
          currentStatus = ''USER_CREATED'',
          priority = prio,
          address = (if truthy addr then Some (enc (the addr)) else None),
          estimatedDelivery = Some (calculateEstimatedDelivery now prio addr),
          actualDelivery = None,
          failureReason = None,
          retryCount = 0,
          journey =
            [\<lparr>stage = ''USER_CREATED'', timestamp = now, source = ''card_management_service'',
              location = Some ''System'', operatorId = Some ''AUTO_APPROVAL'',
              batchId = None, trackingId = None, previousStage = None,
              evFailureReason = None, durationMinutes = None,
              eventData = opt_field ''applicationId'' (cd_applicationId cd)
                          @ [(''priority'', JStr prio)] @ opt_field ''message'' (cd_message cd)\<rparr>],
          metadata = [(''region'', JStr (extractRegionFromAddress addr)), (''createdBy'', JStr ''system'')],
          createdAt = now,
          updatedAt = now\<rparr>)"

definition createCard ::
  "(string \<Rightarrow> string) \<Rightarrow> (string \<Rightarrow> string option) \<Rightarrow> int \<Rightarrow> card_data \<Rightarrow> state
     \<Rightarrow> (error + jsobject) \<times> state" where
  "createCard enc dec now cd st =
     (if \<not> truthy (cd_cardId cd) \<or> \<not> truthy (cd_customerId cd) \<or>
         \<not> truthy (cd_mobileNumber cd) \<or> \<not> truthy (cd_panMasked cd)
      then (Inl MissingFields, st)
      else
        (let cardJourney = newCardJourney enc now cd in
         case save_new now cardJourney (cards st) of
           Inl DuplicateKey \<Rightarrow> (Inl CardIdExists, st)
         | Inl SchemaValidation \<Rightarrow> (Inl ValidationError, st)
         | Inr cs \<Rightarrow>
             (let st1 = st\<lparr>cards := cs\<rparr>;
                  st2 = broadcast now ''card_created''
                          ([(''cardId'', JStr (cardId cardJourney)),
                            (''status'', JStr (currentStatus cardJourney)),
                            (''priority'', JStr (priority cardJourney))]
                           @ opt_field ''customerName'' (customerName cardJourney)) st1;
                  st3 = st2\<lparr>smsOutbox := smsOutbox st2 @ [(customerId cardJourney, ''CARD_APPROVED'')]\<rparr>
              in (Inr (sanitizeCardData dec cardJourney), st3))))"

text \<open>
  \<open>updateCardStatus\<close>, in the order of the source: the event built from the request
  (\<open>newStatusEvent\<close>), the update document applied to the stored card
  (\<open>applyStatusUpdate\<close>, \<open>updatedCard\<close>), then what follows the write: the broadcast,
  the SMS request and the scheduling of an analysis (\<open>afterStatusWrite\<close>).
  \<open>now\<close> is the service's clock reading (\<open>Date.now()\<close>,
  \<open>new Date()\<close>), \<open>stamp\<close> the instant the schema default gives the pushed event when
  the update is applied. The update goes through \<open>findOneAndUpdate\<close> without
  \<open>runValidators\<close>, so the schema's enum lists are not consulted, and nothing in the
  function compares \<open>status\<close> with the current stage.
\<close>

text \<open>The duration since the last stored event; \<open>null\<close> (here \<open>None\<close>, like a missing
  field) when the journey has no event.\<close>

definition computeDuration :: "int \<Rightarrow> journey_event list \<Rightarrow> int option" where
  "computeDuration now evs =
     (case evs of
        [] \<Rightarrow> None
      | _ \<Rightarrow> Some (math_round_div (now - timestamp (last evs)) 60000))"

definition applyStatusUpdate ::
  "int \<Rightarrow> int \<Rightarrow> string \<Rightarrow> journey_event \<Rightarrow> string option \<Rightarrow> card_journey \<Rightarrow> card_journey" where
  "applyStatusUpdate now stamp status newEvent fr d =
     (let d1 = d\<lparr>currentStatus := status, journey := journey d @ [newEvent], updatedAt := stamp\<rparr>;
          d2 = (if truthy fr then d1\<lparr>failureReason := fr, retryCount := retryCount d1 + 1\<rparr> else d1);
          d3 = (if status = ''DELIVERED'' then d2\<lparr>actualDelivery := Some now\<rparr> else d2)
      in d3)"

definition newStatusEvent :: "int \<Rightarrow> string \<Rightarrow> int option \<Rightarrow> status_data \<Rightarrow> journey_event" where
  "newStatusEvent stamp previousStatus duration sd =
     \<lparr>stage = the (sd_status sd), timestamp = stamp, source = the (sd_source sd),
      location = sd_location sd, operatorId = sd_operatorId sd,
      batchId = sd_batchId sd, trackingId = sd_trackingId sd,
      previousStage = Some previousStatus,
      evFailureReason = sd_failureReason sd,
      durationMinutes = duration,
      eventData = (case sd_eventData sd of None \<Rightarrow> [] | Some o' \<Rightarrow> o')\<rparr>"

definition updatedCard :: "int \<Rightarrow> int \<Rightarrow> status_data \<Rightarrow> card_journey \<Rightarrow> card_journey" where
  "updatedCard now stamp sd cardJourney =
     applyStatusUpdate now stamp (the (sd_status sd))
       (newStatusEvent stamp (currentStatus cardJourney)
          (computeDuration now (journey cardJourney)) sd)
       (sd_failureReason sd) cardJourney"

definition statusUpdatedData :: "int \<Rightarrow> string \<Rightarrow> string \<Rightarrow> status_data \<Rightarrow> jsobject" where
  "statusUpdatedData now cid previousStatus sd =
     [(''cardId'', JStr cid), (''previousStatus'', JStr previousStatus),
      (''newStatus'', JStr (the (sd_status sd))), (''timestamp'', JDate now)]
     @ opt_field ''location'' (sd_location sd)
     @ opt_field ''failureReason'' (sd_failureReason sd)"

definition afterStatusWrite :: "int \<Rightarrow> string \<Rightarrow> status_data \<Rightarrow> card_journey \<Rightarrow> state \<Rightarrow> state" where
  "afterStatusWrite now cid sd cardJourney st1 =
     (let st2 = broadcast now ''status_updated''
                  (statusUpdatedData now cid (currentStatus cardJourney) sd) st1;
          st3 = st2\<lparr>smsOutbox :=
                      smsOutbox st2 @ [(customerId cardJourney, ''CARD_STATUS_UPDATE'')]\<rparr>
      in if str_includes (the (sd_status sd)) ''FAILED'' \<or>
            (case computeDuration now (journey cardJourney) of
               None \<Rightarrow> False | Some m \<Rightarrow> m > 480)
         then st3\<lparr>analysisScheduled := Suc (analysisScheduled st3)\<rparr> else st3)"

definition updateCardStatus ::
  "(string \<Rightarrow> string option) \<Rightarrow> int \<Rightarrow> int \<Rightarrow> string \<Rightarrow> status_data \<Rightarrow> state
     \<Rightarrow> (error + jsobject) \<times> state" where
  "updateCardStatus dec now stamp cid sd st =
     (if \<not> truthy (sd_status sd) \<or> \<not> truthy (sd_source sd) then (Inl MissingFields, st)
      else
        (case findOne cid (cards st) of
           None \<Rightarrow> (Inl CardNotFound, st)
         | Some cardJourney \<Rightarrow>
             (let upd = updatedCard now stamp sd cardJourney;
                  st1 = st\<lparr>cards := replace_first cid upd (cards st)\<rparr>
              in (Inr (sanitizeCardData dec upd), afterStatusWrite now cid sd cardJourney st1))))"


text \<open>
  \<open>searchCards\<close>. The query is turned into a regular expression with the flag \<open>i\<close> as it
  is, without escaping. \<open>rx\<close> stands for \<open>new RegExp(query, 'i')\<close>: \<open>None\<close> when the
  constructor throws on a malformed pattern, otherwise the test the pattern performs on
  a text. A field that is missing from a document matches no pattern. There are four
  kinds of query, tried in this order: one that starts with CRD in any case looks at
  the card id only; one with a star and at least 8 characters must equal the masked PAN;
  one of at least 4 digits looks at customer name and customer id; any other looks at
  customer name, customer id and application id. The result is the newest ten.
\<close>

definition is_digits :: "string \<Rightarrow> bool" where
  "is_digits s = (s \<noteq> [] \<and> list_all (\<lambda>c. c \<in> set ''0123456789'') s)"

definition field_matches :: "(string \<Rightarrow> bool) \<Rightarrow> string option \<Rightarrow> bool" where
  "field_matches m v = (case v of None \<Rightarrow> False | Some s \<Rightarrow> m s)"

definition searchCriteria ::
  "(string \<Rightarrow> (string \<Rightarrow> bool) option) \<Rightarrow> string \<Rightarrow> error + (card_journey \<Rightarrow> bool)" where
  "searchCriteria rx query =
     (if startsWith (toUpperCase query) ''CRD'' then
        (case rx query of
           None \<Rightarrow> Inl InvalidRegExp
         | Some m \<Rightarrow> Inr (\<lambda>d. m (cardId d)))
      else if str_includes query ''*'' \<and> length query \<ge> 8 then
        Inr (\<lambda>d. panMasked d = query)
      else if is_digits query \<and> length query \<ge> 4 then
        (case rx query of
           None \<Rightarrow> Inl InvalidRegExp
         | Some m \<Rightarrow> Inr (\<lambda>d. field_matches m (customerName d) \<or> m (customerId d)))
      else
        (case rx query of
           None \<Rightarrow> Inl InvalidRegExp
         | Some m \<Rightarrow>
             Inr (\<lambda>d. field_matches m (customerName d) \<or> m (customerId d) \<or>
                      field_matches m (applicationId d))))"

text \<open>\<open>.sort({ createdAt: -1 })\<close>: newest first.\<close>

definition newest_first :: "card_journey list \<Rightarrow> card_journey list" where
  "newest_first ds = sort_key (\<lambda>d. - createdAt d) ds"

definition searchCards ::
  "(string \<Rightarrow> (string \<Rightarrow> bool) option) \<Rightarrow> (string \<Rightarrow> string option) \<Rightarrow> string \<Rightarrow> state
     \<Rightarrow> error + jsobject list" where
  "searchCards rx dec query st =
     (if length query < 3 then Inl QueryTooShort
      else (case searchCriteria rx query of
              Inl e \<Rightarrow> Inl e
            | Inr crit \<Rightarrow>
                Inr (map (sanitizeCardData dec)
                       (take 10 (newest_first (filter crit (cards st)))))))"

text \<open>What the specification calls a match: the text contains the query, letter case
  set aside. For a query of letters and digits this is also what the regular expression
  built from it tests, which \<open>literal_rx\<close> records.\<close>

definition contains_ci :: "string \<Rightarrow> string \<Rightarrow> bool" where
  "contains_ci query s = str_includes (toUpperCase s) (toUpperCase query)"

definition literal_rx :: "string \<Rightarrow> (string \<Rightarrow> bool) option" where
  "literal_rx query = Some (contains_ci query)"

text \<open>The four kinds of query, read as a condition on a document, for a pattern test
  \<open>m\<close>.\<close>

definition selects :: "(string \<Rightarrow> bool) \<Rightarrow> string \<Rightarrow> card_journey \<Rightarrow> bool" where
  "selects m q d =
     (if startsWith (toUpperCase q) ''CRD'' then m (cardId d)
      else if str_includes q ''*'' \<and> 8 \<le> length q then panMasked d = q
      else if is_digits q \<and> 4 \<le> length q then field_matches m (customerName d) \<or> m (customerId d)
      else field_matches m (customerName d) \<or> m (customerId d) \<or>
           field_matches m (applicationId d))"

text \<open>The second kind of query, the only one for which no regular expression is
  built.\<close>

definition is_pan_query :: "string \<Rightarrow> bool" where
  "is_pan_query q =
     (\<not> startsWith (toUpperCase q) ''CRD'' \<and> str_includes q ''*'' \<and> 8 \<le> length q)"



section \<open>services/analyticsService.js\<close>

text \<open>
  The aggregation pipeline of \<open>analyzeBottlenecks\<close>, stage by stage. \<open>sevenDaysAgo\<close> is
  the start of the window as the service computed it. The first three stages keep the
  cards created in the window, unwind their events and keep the events with a duration
  that is present and positive; what is left of an event is its stage and its duration.
\<close>

definition timed_events :: "int \<Rightarrow> card_journey list \<Rightarrow> (string \<times> int) list" where
  "timed_events sevenDaysAgo cs =
     concat (map (\<lambda>d. List.map_filter
                         (\<lambda>e. case durationMinutes e of
                                 None \<Rightarrow> None
                               | Some m \<Rightarrow> if m > 0 then Some (stage e, m) else None)
                         (journey d))
                 (filter (\<lambda>d. createdAt d \<ge> sevenDaysAgo) cs))"

text \<open>\<open>$group\<close> by stage: the durations pushed in the order met, their number, sum
  (from which \<open>$avg\<close> follows), largest and smallest. The store does not fix the order
  of the groups; here it is the order of \<open>remdups\<close>.\<close>

definition stage_durations :: "(string \<times> int) list \<Rightarrow> string \<Rightarrow> int list" where
  "stage_durations evs s = map snd (filter (\<lambda>p. fst p = s) evs)"

record stage_group =
  g_stage :: string
  g_durations :: "int list"
  g_count :: nat
  g_sum :: int
  g_maxDuration :: int
  g_minDuration :: int

definition group_stage :: "(string \<times> int) list \<Rightarrow> stage_group list" where
  "group_stage evs =
     map (\<lambda>s. let ds = stage_durations evs s
              in \<lparr>g_stage = s, g_durations = ds, g_count = length ds, g_sum = sum_list ds,
                  g_maxDuration = Max (set ds), g_minDuration = Min (set ds)\<rparr>)
         (remdups (map fst evs))"

text \<open>
  \<open>$round\<close> to 0 places of the quotient \<open>s / n\<close> (for \<open>n > 0\<close>): the nearest integer, a
  half going to the even neighbour. The average of integer durations is a half exactly
  when the remainder is half the count, and is otherwise at least \<open>1 / (2 * n)\<close> away
  from a half, far more than the rounding error of the floating-point quotient for any
  count that can occur; the integer formula is exact.
\<close>

definition round_half_even_div :: "int \<Rightarrow> int \<Rightarrow> int" where
  "round_half_even_div s n =
     (let q = s div n; r = s mod n
      in if 2 * r < n then q else if 2 * r > n then q + 1 else if even q then q else q + 1)"

text \<open>
  The ratio \<open>$divide: [delayedCount, count]\<close> and the \<open>$switch\<close> on it. The ratio is a
  rational number here; the thresholds 0.3, 0.2 and 0.1 are the floating-point numbers
  nearest to 3/10, 2/10 and 1/10, and a ratio of two counts that is not equal to such a
  threshold differs from it by at least \<open>1 / (10 * count)\<close>, so the comparisons come out
  as they do on the rationals.
\<close>

definition delayRatio :: "nat \<Rightarrow> nat \<Rightarrow> rat" where
  "delayRatio delayedCount cnt = of_nat delayedCount / of_nat cnt"

definition severity_switch :: "nat \<Rightarrow> nat \<Rightarrow> string" where
  "severity_switch delayedCount cnt =
     (if delayRatio delayedCount cnt > 3 / 10 then ''critical''
      else if delayRatio delayedCount cnt > 2 / 10 then ''high''
      else if delayRatio delayedCount cnt > 1 / 10 then ''medium''
      else ''low'')"

text \<open>
  A row as the two \<open>$project\<close> stages leave it. Two of its fields are not modelled.
  \<open>p95Duration\<close>: the position handed to \<open>$slice\<close> is written
  \<open>Math.floor("$count" * 0.95)\<close>, which JavaScript evaluates, on the string, to NaN
  before the pipeline is sent; what the store makes of that position is not in the
  source. \<open>delayPercentage\<close>: a floating-point value rounded to one decimal, which
  decides the order of the rows and the wording of the recommendations only. The rows
  are therefore kept in the order of the groups.
\<close>

record stage_row =
  row_stage :: string
  row_count :: nat
  row_avgDuration :: int
  row_maxDuration :: int
  row_minDuration :: int
  row_delayedCount :: nat
  row_severity :: string

definition delayed_count :: "int list \<Rightarrow> nat" where
  "delayed_count ds = length (filter (\<lambda>x. x > 480) ds)"

definition project_row :: "stage_group \<Rightarrow> stage_row" where
  "project_row g =
     \<lparr>row_stage = g_stage g, row_count = g_count g,
      row_avgDuration = round_half_even_div (g_sum g) (int (g_count g)),
      row_maxDuration = g_maxDuration g, row_minDuration = g_minDuration g,
      row_delayedCount = delayed_count (g_durations g),
      row_severity = severity_switch (delayed_count (g_durations g)) (g_count g)\<rparr>"

text \<open>The whole pipeline: groups of at least 5, projected, average above 30.\<close>

definition analysis_rows :: "int \<Rightarrow> card_journey list \<Rightarrow> stage_row list" where
  "analysis_rows sevenDaysAgo cs =
     filter (\<lambda>r. row_avgDuration r > 30)
       (map project_row
          (filter (\<lambda>g. g_count g \<ge> 5) (group_stage (timed_events sevenDaysAgo cs))))"

text \<open>\<open>calculateMedian\<close>: the middle between the smallest and the largest duration.\<close>

definition calculateMedian :: "stage_row \<Rightarrow> int" where
  "calculateMedian stageData =
     math_round_div (row_minDuration stageData + row_maxDuration stageData) 2"

text \<open>The summary upserted for a row under the key (stage, day of the analysis), without
  \<open>p95DurationMinutes\<close>, \<open>delayPercentage\<close> and the recommendation texts.\<close>

record bottleneck_summary =
  b_stage :: string
  avgDurationMinutes :: int
  affectedCount :: nat
  b_severity :: string
  totalSampleSize :: nat
  medianDurationMinutes :: int
  b_maxDuration :: int
  b_minDuration :: int

definition summary_of :: "stage_row \<Rightarrow> bottleneck_summary" where
  "summary_of r =
     \<lparr>b_stage = row_stage r, avgDurationMinutes = row_avgDuration r,
      affectedCount = row_count r, b_severity = row_severity r,
      totalSampleSize = row_count r, medianDurationMinutes = calculateMedian r,
      b_maxDuration = row_maxDuration r, b_minDuration = row_minDuration r\<rparr>"

definition bottleneck_summaries :: "int \<Rightarrow> card_journey list \<Rightarrow> bottleneck_summary list" where
  "bottleneck_summaries sevenDaysAgo cs = map summary_of (analysis_rows sevenDaysAgo cs)"

text \<open>The median of a non-empty sample, as the specification means it: the middle
  element of the sorted durations, the mean of the two middle ones when their number is
  even.\<close>

definition true_median :: "int list \<Rightarrow> rat" where
  "true_median ds =
     (let s = sort ds; n = length s
      in if odd n then of_int (s ! (n div 2))
         else (of_int (s ! (n div 2 - 1)) + of_int (s ! (n div 2))) / 2)"

section \<open>The transition table of the specification\<close>



section \<open>Sequences of operations and the invariants of a journey\<close>

text \<open>A call of one of the two writing operations of the service, together with the
  clock readings it sees. Running a call keeps the state it leaves behind and drops its
  result.\<close>

datatype operation =
    Create card_data int
  | Advance string status_data int int

fun run_operation ::
  "(string \<Rightarrow> string) \<Rightarrow> (string \<Rightarrow> string option) \<Rightarrow> operation \<Rightarrow> state \<Rightarrow> state" where
  "run_operation enc dec (Create cd now) st = snd (createCard enc dec now cd st)"
| "run_operation enc dec (Advance cid sd now stamp) st =
     snd (updateCardStatus dec now stamp cid sd st)"

definition run_operations ::
  "(string \<Rightarrow> string) \<Rightarrow> (string \<Rightarrow> string option) \<Rightarrow> operation list \<Rightarrow> state \<Rightarrow> state" where
  "run_operations enc dec ops st = fold (run_operation enc dec) ops st"

text \<open>The journey has an event and \<open>currentStatus\<close> is the stage of the last one.\<close>

definition stage_matches :: "card_journey \<Rightarrow> bool" where
  "stage_matches d = (journey d \<noteq> [] \<and> currentStatus d = stage (last (journey d)))"

text \<open>The failure stages, as the dashboard queries of the service list them, and two
  ways of counting failures in a journey: events whose stage is a failure stage, and
  events that carry a non-empty failure reason.\<close>

definition failure_stages :: "string list" where
  "failure_stages = [''DELIVERY_FAILED'', ''EMBOSSING_FAILED'']"

definition failure_stage_events :: "card_journey \<Rightarrow> int" where
  "failure_stage_events d =
     int (length (filter (\<lambda>e. stage e \<in> set failure_stages) (journey d)))"

definition failure_reason_events :: "card_journey \<Rightarrow> int" where
  "failure_reason_events d =
     int (length (filter (\<lambda>e. truthy (evFailureReason e)) (journey d)))"

definition retry_counted :: "card_journey \<Rightarrow> bool" where
  "retry_counted d = (retryCount d = failure_reason_events d)"

text \<open>The journey has an event, its first event has no duration and every later event
  has one.\<close>

definition only_first_without_duration :: "card_journey \<Rightarrow> bool" where
  "only_first_without_duration d =
     (case journey d of
        [] \<Rightarrow> False
      | e # es \<Rightarrow> durationMinutes e = None \<and> list_all (\<lambda>x. durationMinutes x \<noteq> None) es)"

section \<open>Sample data\<close>

text \<open>A stored card, subscribers, a cipher and requests, used where a property is
  evaluated at a concrete input.\<close>

definition demo_event :: "string \<Rightarrow> int \<Rightarrow> string option \<Rightarrow> int option \<Rightarrow> journey_event" where
  "demo_event s t prev dur =
     \<lparr>stage = s, timestamp = t, source = ''card_management_service'',
      location = None, operatorId = None, batchId = None, trackingId = None,
      previousStage = prev, evFailureReason = None, durationMinutes = dur, eventData = []\<rparr>"

definition demo_card :: "string \<Rightarrow> journey_event list \<Rightarrow> card_journey" where
  "demo_card cur evs =
     \<lparr>cardId = ''CRD001'', customerId = ''CUST42'', customerName = Some ''Asha Rao'',
      mobileNumber = Some ''enc:919876543210'', panMasked = ''4111********1111'',
      applicationId = Some ''APP7'', currentStatus = cur, priority = ''EXPRESS'',
      address = None, estimatedDelivery = None, actualDelivery = None,
      failureReason = None, retryCount = 0, journey = evs, metadata = [],
      createdAt = 0, updatedAt = 0\<rparr>"

definition demo_client :: "nat \<Rightarrow> ready_state \<Rightarrow> bool \<Rightarrow> client" where
  "demo_client h rs thr = \<lparr>handle = h, readyState = rs, sendThrows = thr, inbox = []\<rparr>"

definition demo_state :: "card_journey list \<Rightarrow> client list \<Rightarrow> state" where
  "demo_state cs cl = \<lparr>cards = cs, connectedClients = cl, smsOutbox = [], analysisScheduled = 0\<rparr>"

definition demo_dec :: "string \<Rightarrow> string option" where
  "demo_dec s = (if startsWith s ''enc:'' then Some (drop 4 s) else None)"

definition demo_enc :: "string \<Rightarrow> string" where
  "demo_enc s = ''enc:'' @ s"

definition demo_advance :: "string \<Rightarrow> string option \<Rightarrow> status_data" where
  "demo_advance s fr =
     \<lparr>sd_status = Some s, sd_source = Some ''courier_webhook'', sd_location = None,
      sd_operatorId = None, sd_batchId = None, sd_trackingId = None,
      sd_failureReason = fr, sd_eventData = None\<rparr>"


definition approved_state :: state where
  "approved_state =
     demo_state [demo_card ''APPROVED'' [demo_event ''APPROVED'' 0 None None]]
       [demo_client 1 OPEN False]"

definition out_for_delivery_state :: state where
  "out_for_delivery_state =
     demo_state
       [demo_card ''OUT_FOR_DELIVERY''
          [demo_event ''APPROVED'' 0 None None,
           demo_event ''OUT_FOR_DELIVERY'' 3600000 (Some ''APPROVED'') (Some 60)]]
       [demo_client 1 OPEN False]"

definition empty_state :: state where
  "empty_state = demo_state [] [demo_client 1 OPEN False]"

definition demo_request :: card_data where
  "demo_request =
     \<lparr>cd_cardId = Some ''CRD001'', cd_customerId = Some ''CUST42'',
      cd_customerName = Some ''Asha Rao'', cd_mobileNumber = Some ''919876543210'',
      cd_panMasked = Some ''4111********1111'', cd_applicationId = Some ''APP7'',
      cd_priority = Some ''EXPRESS'', cd_address = Some ''12 MG Road, Pune, Maharashtra'',
      cd_message = None\<rparr>"


definition three_clients :: "client list" where
  "three_clients =
     [demo_client 1 OPEN False, demo_client 2 CLOSED False, demo_client 3 OPEN True]"

definition card1_state :: state where
  "card1_state =
     demo_state
       [(demo_card ''APPROVED'' [demo_event ''APPROVED'' 0 None None])\<lparr>cardId := ''CARD1''\<rparr>]
       [demo_client 1 OPEN False]"

definition timed_card :: "string \<Rightarrow> int list \<Rightarrow> card_journey" where
  "timed_card s ds =
     demo_card s (demo_event ''APPROVED'' 0 None None
                  # map (\<lambda>m. demo_event s 0 (Some s) (Some m)) ds)"

definition ten_events_card :: card_journey where
  "ten_events_card = timed_card ''IN_TRANSIT'' [500, 600, 700, 800, 10, 20, 30, 40, 50, 60]"

definition ten_events_row :: stage_row where
  "ten_events_row =
     \<lparr>row_stage = ''IN_TRANSIT'', row_count = 10, row_avgDuration = 281,
      row_maxDuration = 800, row_minDuration = 10, row_delayedCount = 4,
      row_severity = ''critical''\<rparr>"

definition five_events_card :: card_journey where
  "five_events_card = timed_card ''IN_TRANSIT'' [40, 50, 60, 70, 1000]"

definition five_events_summary :: bottleneck_summary where
  "five_events_summary =
     \<lparr>b_stage = ''IN_TRANSIT'', avgDurationMinutes = 244, affectedCount = 5,
      b_severity = ''medium'', totalSampleSize = 5, medianDurationMinutes = 520,
      b_maxDuration = 1000, b_minDuration = 40\<rparr>"

text \<open>Twelve cards whose ids all start with CRD1, created at twelve different instants,
  and a card whose customer id holds four digits.\<close>

definition numbered_card :: "string \<Rightarrow> int \<Rightarrow> card_journey" where
  "numbered_card cid t =
     (demo_card ''APPROVED'' [demo_event ''APPROVED'' t None None])
       \<lparr>cardId := cid, createdAt := t, updatedAt := t\<rparr>"

definition twelve_cards_state :: state where
  "twelve_cards_state =
     demo_state
       [numbered_card ''CRD101'' 5, numbered_card ''CRD102'' 1, numbered_card ''CRD103'' 9,
        numbered_card ''CRD104'' 12, numbered_card ''CRD105'' 3, numbered_card ''CRD106'' 7,
        numbered_card ''CRD107'' 2, numbered_card ''CRD108'' 11, numbered_card ''CRD109'' 4,
        numbered_card ''CRD110'' 10, numbered_card ''CRD111'' 6, numbered_card ''CRD112'' 8]
       []"

definition digits_state :: state where
  "digits_state =
     demo_state
       [(demo_card ''APPROVED'' [demo_event ''APPROVED'' 0 None None])
          \<lparr>customerId := ''CUST2024''\<rparr>]
       []"

section \<open>Properties\<close>

subsection \<open>The cases of \<open>updateCardStatus\<close>\<close>

lemma broadcast_cards [simp]: "cards (broadcast now ty dat st) = cards st"
  by (simp add: broadcast_def)

lemma afterStatusWrite_cards [simp]: "cards (afterStatusWrite now cid sd d st1) = cards st1"
  by (simp add: afterStatusWrite_def Let_def)

lemma afterStatusWrite_clients:
  "connectedClients (afterStatusWrite now cid sd d st1) =
     broadcast_loop \<lparr>msg_type = ''status_updated'',
                     msg_data = statusUpdatedData now cid (currentStatus d) sd,
                     msg_timestamp = now\<rparr> (connectedClients st1)"
  by (simp add: afterStatusWrite_def Let_def broadcast_def)

lemma upd_missing:
  "\<not> truthy (sd_status sd) \<or> \<not> truthy (sd_source sd) \<Longrightarrow>
     updateCardStatus dec now stamp cid sd st = (Inl MissingFields, st)"
  by (simp add: updateCardStatus_def)

lemma upd_notfound:
  "truthy (sd_status sd) \<Longrightarrow> truthy (sd_source sd) \<Longrightarrow> findOne cid (cards st) = None \<Longrightarrow>
     updateCardStatus dec now stamp cid sd st = (Inl CardNotFound, st)"
  by (simp add: updateCardStatus_def)

lemma upd_found:
  "truthy (sd_status sd) \<Longrightarrow> truthy (sd_source sd) \<Longrightarrow> findOne cid (cards st) = Some d \<Longrightarrow>
     updateCardStatus dec now stamp cid sd st =
       (Inr (sanitizeCardData dec (updatedCard now stamp sd d)),
        afterStatusWrite now cid sd d
          (st\<lparr>cards := replace_first cid (updatedCard now stamp sd d) (cards st)\<rparr>))"
  by (simp add: updateCardStatus_def Let_def)

lemma upd_cases:
  obtains (missing) "\<not> truthy (sd_status sd) \<or> \<not> truthy (sd_source sd)"
        "updateCardStatus dec now stamp cid sd st = (Inl MissingFields, st)"
  | (notfound) "truthy (sd_status sd)" "truthy (sd_source sd)" "findOne cid (cards st) = None"
        "updateCardStatus dec now stamp cid sd st = (Inl CardNotFound, st)"
  | (found) d where "truthy (sd_status sd)" "truthy (sd_source sd)" "findOne cid (cards st) = Some d"
        "updateCardStatus dec now stamp cid sd st =
           (Inr (sanitizeCardData dec (updatedCard now stamp sd d)),
            afterStatusWrite now cid sd d
              (st\<lparr>cards := replace_first cid (updatedCard now stamp sd d) (cards st)\<rparr>))"
proof (cases "\<not> truthy (sd_status sd) \<or> \<not> truthy (sd_source sd)")
  case True
  then show ?thesis using missing upd_missing by blast
next
  case False
  then have t: "truthy (sd_status sd)" "truthy (sd_source sd)" by auto
  show ?thesis
  proof (cases "findOne cid (cards st)")
    case None
    then show ?thesis using notfound t upd_notfound by blast
  next
    case (Some d)
    then show ?thesis using found t upd_found by blast
  qed
qed

subsection \<open>The collection under the operations\<close>

lemma findOne_Some: "findOne cid cs = Some d \<Longrightarrow> d \<in> set cs \<and> cardId d = cid"
  by (auto simp: findOne_def find_Some_iff)

lemma list_all_replace_first:
  "list_all P cs \<Longrightarrow> P d \<Longrightarrow> list_all P (replace_first cid d cs)"
  by (induction cs) auto

lemma findOne_replace_first:
  "findOne cid cs = Some d \<Longrightarrow> cardId d' = cid \<Longrightarrow>
     findOne cid (replace_first cid d' cs) = Some d'"
  by (induction cs) (auto simp: findOne_def)

lemma updatedCard_journey:
  "journey (updatedCard now stamp sd d) =
     journey d @ [newStatusEvent stamp (currentStatus d) (computeDuration now (journey d)) sd]"
  by (simp add: updatedCard_def applyStatusUpdate_def Let_def)

lemma updatedCard_currentStatus:
  "currentStatus (updatedCard now stamp sd d) = the (sd_status sd)"
  by (simp add: updatedCard_def applyStatusUpdate_def Let_def)

lemma updatedCard_cardId: "cardId (updatedCard now stamp sd d) = cardId d"
  by (simp add: updatedCard_def applyStatusUpdate_def Let_def)

lemma updatedCard_retryCount:
  "retryCount (updatedCard now stamp sd d) =
     retryCount d + (if truthy (sd_failureReason sd) then 1 else 0)"
  by (simp add: updatedCard_def applyStatusUpdate_def Let_def)

lemma cards_updateCardStatus:
  "cards (snd (updateCardStatus dec now stamp cid sd st)) =
     (case findOne cid (cards st) of
        Some d \<Rightarrow> if truthy (sd_status sd) \<and> truthy (sd_source sd)
                  then replace_first cid (updatedCard now stamp sd d) (cards st) else cards st
      | None \<Rightarrow> cards st)"
  by (rule upd_cases [of sd dec now stamp cid st]) (auto split: option.splits)

lemma cards_createCard:
  "cards (snd (createCard enc dec now cd st)) = cards st \<or>
   cards (snd (createCard enc dec now cd st)) =
     cards st @ [(newCardJourney enc now cd)\<lparr>createdAt := now, updatedAt := now\<rparr>]"
  by (auto simp: createCard_def save_new_def Let_def)

text \<open>The document that \<open>createCard\<close> builds names a stage the schema does not list, so
  the validation of \<open>save()\<close> turns it down.\<close>

lemma validate_newCardJourney: "\<not> validate (newCardJourney enc now cd)"
  by (simp add: validate_def newCardJourney_def Let_def stage_enum_def)

lemma createCard_outcomes:
  "createCard enc dec now cd st = (Inl MissingFields, st) \<or>
   createCard enc dec now cd st = (Inl ValidationError, st)"
  by (simp add: createCard_def save_new_def validate_newCardJourney Let_def)

lemma math_round_div_bounds:
  "60000 * math_round_div a 60000 - 30000 \<le> a \<and> a < 60000 * math_round_div a 60000 + 30000"
proof -
  define q where "q = (2 * a + 60000) div 120000"
  have r: "math_round_div a 60000 = q"
    by (simp add: math_round_div_def q_def)
  have "2 * a + 60000 = 120000 * q + (2 * a + 60000) mod 120000"
    unfolding q_def by simp
  moreover have "0 \<le> (2 * a + 60000) mod 120000" "(2 * a + 60000) mod 120000 < 120000"
    by simp_all
  ultimately show ?thesis
    unfolding r by linarith
qed

lemma set_newest_first [simp]: "set (newest_first ds) = set ds"
  by (simp add: newest_first_def)

lemma length_newest_first [simp]: "length (newest_first ds) = length ds"
  by (simp add: newest_first_def)

subsection \<open>C1: a call that fails\<close>




subsection \<open>C2: the current stage is the stage of the last event\<close>

lemma stage_matches_updatedCard: "stage_matches (updatedCard now stamp sd d)"
  by (simp add: stage_matches_def updatedCard_journey updatedCard_currentStatus
                newStatusEvent_def)

lemma stage_matches_new: "stage_matches (newCardJourney enc now cd)"
  by (simp add: stage_matches_def newCardJourney_def Let_def)

lemma stage_matches_added: "stage_matches (addJourneyEvent_doc ev d)"
  by (simp add: stage_matches_def addJourneyEvent_doc_def Let_def)

lemma stage_matches_stamps [simp]:
  "stage_matches (d\<lparr>updatedAt := t\<rparr>) = stage_matches d"
  "stage_matches (d\<lparr>createdAt := t\<rparr>) = stage_matches d"
  by (simp_all add: stage_matches_def)

lemma run_operation_stage_matches:
  "list_all stage_matches (cards st) \<Longrightarrow>
     list_all stage_matches (cards (run_operation enc dec op st))"
proof (cases op)
  case (Create cd now)
  then show "list_all stage_matches (cards st) \<Longrightarrow> ?thesis"
    using cards_createCard [of enc dec now cd st] by (auto simp: stage_matches_new)
next
  case (Advance cid sd now stamp)
  then show "list_all stage_matches (cards st) \<Longrightarrow> ?thesis"
    by (auto simp: cards_updateCardStatus list_all_replace_first stage_matches_updatedCard
             split: option.splits)
qed

lemma run_operations_stage_matches:
  "list_all stage_matches (cards st) \<Longrightarrow>
     list_all stage_matches (cards (run_operations enc dec ops st))"
  unfolding run_operations_def
  by (induction ops arbitrary: st) (simp_all add: run_operation_stage_matches)

text \<open>
  C2: the document \<open>createCard\<close> builds has its first event and its \<open>currentStatus\<close> is
  that event's stage; the document \<open>addJourneyEvent\<close> leaves has an event and its
  \<open>currentStatus\<close> is the stage of the last one; and from a collection in which every
  journey has an event and has \<open>currentStatus\<close> equal to the stage of its last event, any
  sequence of \<open>createCard\<close> and \<open>updateCardStatus\<close> calls, failed ones included, leads to
  a collection with the same property.
\<close>

theorem currentStatus_is_stage_of_last_event:
  "stage_matches (newCardJourney enc now cd) \<and>
   stage_matches (addJourneyEvent_doc ev d) \<and>
   (list_all stage_matches (cards st) \<longrightarrow>
      list_all stage_matches (cards (run_operations enc dec ops st)))"
  by (simp add: stage_matches_new stage_matches_added run_operations_stage_matches)

theorem currentStatus_is_stage_of_last_event_witness:
  "list_all stage_matches (cards approved_state) \<and>
   map (\<lambda>d. (currentStatus d, map stage (journey d)))
     (cards (run_operations demo_enc demo_dec
        [Advance ''CRD001'' (demo_advance ''QUEUED_FOR_EMBOSSING'' None) 60000 60001,
         Advance ''CRD001'' (demo_advance ''IN_EMBOSSING'' None) 120000 120001] approved_state))
     = [(''IN_EMBOSSING'', [''APPROVED'', ''QUEUED_FOR_EMBOSSING'', ''IN_EMBOSSING''])] \<and>
   list_all stage_matches
     (cards (run_operations demo_enc demo_dec
        [Advance ''CRD001'' (demo_advance ''QUEUED_FOR_EMBOSSING'' None) 60000 60001,
         Advance ''CRD001'' (demo_advance ''IN_EMBOSSING'' None) 120000 120001] approved_state))"
proof -
  have h: "list_all stage_matches (cards approved_state)"
    by code_simp
  have e: "map (\<lambda>d. (currentStatus d, map stage (journey d)))
     (cards (run_operations demo_enc demo_dec
        [Advance ''CRD001'' (demo_advance ''QUEUED_FOR_EMBOSSING'' None) 60000 60001,
         Advance ''CRD001'' (demo_advance ''IN_EMBOSSING'' None) 120000 120001] approved_state))
     = [(''IN_EMBOSSING'', [''APPROVED'', ''QUEUED_FOR_EMBOSSING'', ''IN_EMBOSSING''])]"
    by code_simp
  show ?thesis
    using h e currentStatus_is_stage_of_last_event
        [of demo_enc 0 demo_request "demo_event ''DELIVERED'' 1 None None"
            "demo_card ''APPROVED'' []" approved_state demo_dec
        "[Advance ''CRD001'' (demo_advance ''QUEUED_FOR_EMBOSSING'' None) 60000 60001,
          Advance ''CRD001'' (demo_advance ''IN_EMBOSSING'' None) 120000 120001]"]
    by blast
qed

subsection \<open>C3: where the duration is stored\<close>

lemma only_first_updatedCard:
  "only_first_without_duration d \<Longrightarrow> only_first_without_duration (updatedCard now stamp sd d)"
  by (auto simp: only_first_without_duration_def updatedCard_journey newStatusEvent_def
                 computeDuration_def split: list.splits)

lemma only_first_new: "only_first_without_duration (newCardJourney enc now cd)"
  by (simp add: only_first_without_duration_def newCardJourney_def Let_def)

lemma only_first_stamps [simp]:
  "only_first_without_duration (d\<lparr>createdAt := t, updatedAt := u\<rparr>) = only_first_without_duration d"
  by (simp add: only_first_without_duration_def)

lemma cards_updateCardStatus_only_first:
  assumes "list_all only_first_without_duration (cards st)"
  shows "list_all only_first_without_duration
           (cards (snd (updateCardStatus dec now stamp cid sd st)))"
proof (cases "findOne cid (cards st)")
  case None
  then show ?thesis using assms by (simp add: cards_updateCardStatus)
next
  case (Some d)
  then have "d \<in> set (cards st)" by (simp add: findOne_Some)
  then have "only_first_without_duration d" using assms by (simp add: list_all_iff)
  then have "only_first_without_duration (updatedCard now stamp sd d)"
    by (rule only_first_updatedCard)
  then show ?thesis
    using assms Some by (simp add: cards_updateCardStatus list_all_replace_first)
qed

lemma run_operation_only_first:
  "list_all only_first_without_duration (cards st) \<Longrightarrow>
     list_all only_first_without_duration (cards (run_operation enc dec op st))"
proof (cases op)
  case (Create cd now)
  then show "list_all only_first_without_duration (cards st) \<Longrightarrow> ?thesis"
    using cards_createCard [of enc dec now cd st] by (auto simp: only_first_new)
next
  case (Advance cid sd now stamp)
  then show "list_all only_first_without_duration (cards st) \<Longrightarrow> ?thesis"
    by (simp add: cards_updateCardStatus_only_first)
qed

lemma run_operations_only_first:
  "list_all only_first_without_duration (cards st) \<Longrightarrow>
     list_all only_first_without_duration (cards (run_operations enc dec ops st))"
  unfolding run_operations_def
  by (induction ops arbitrary: st) (simp_all add: run_operation_only_first)

text \<open>
  C3, as the specification states it: the duration is back-filled onto the previous event
  and is absent on the last one. The source computes the time since the last stored event
  and writes it into the event it is about to push; the stored events are not touched. A
  card approved at instant 0 is advanced to DELIVERED fifty hours later: the first event
  still has no duration, where C3 expects 3000 minutes, and the last event carries 3000,
  where C3 expects none.
\<close>

theorem c3_duration_is_on_the_last_event:
  "map (\<lambda>d. map (\<lambda>e. (stage e, timestamp e, durationMinutes e)) (journey d))
     (cards (snd (updateCardStatus demo_dec 180000000 180000000 ''CRD001''
                    (demo_advance ''DELIVERED'' None) approved_state)))
   = [[(''APPROVED'', 0, None), (''DELIVERED'', 180000000, Some 3000)]]"
  by code_simp

text \<open>
  C3, amended to what the source does: a successful \<open>updateCardStatus\<close> on a stored card
  leaves the events already recorded as they are and appends one event; that new event
  carries the duration, which is the service's clock reading minus the \<open>timestamp\<close> of the
  previously last event, in minutes, rounded to the nearest minute (a half rounded up);
  it carries none when the journey had no event. The one event of the document
  \<open>createCard\<close> builds has no duration. Hence, from a collection in which every journey
  has no duration on its first event and a duration on every later event, the last
  included, any sequence of \<open>createCard\<close> and \<open>updateCardStatus\<close> calls leads to a
  collection with the same property.
\<close>

theorem duration_is_stored_on_the_appended_event:
  "(truthy (sd_status sd) \<and> truthy (sd_source sd) \<and> findOne cid (cards st) = Some d \<longrightarrow>
      findOne cid (cards (snd (updateCardStatus dec now stamp cid sd st)))
        = Some (updatedCard now stamp sd d) \<and>
      butlast (journey (updatedCard now stamp sd d)) = journey d \<and>
      timestamp (last (journey (updatedCard now stamp sd d))) = stamp \<and>
      (journey d = [] \<longrightarrow>
         durationMinutes (last (journey (updatedCard now stamp sd d))) = None) \<and>
      (journey d \<noteq> [] \<longrightarrow>
         (\<exists>m. durationMinutes (last (journey (updatedCard now stamp sd d))) = Some m \<and>
              60000 * m - 30000 \<le> now - timestamp (last (journey d)) \<and>
              now - timestamp (last (journey d)) < 60000 * m + 30000))) \<and>
   map durationMinutes (journey (newCardJourney enc now0 cd)) = [None] \<and>
   only_first_without_duration (newCardJourney enc now0 cd) \<and>
   (list_all only_first_without_duration (cards st) \<longrightarrow>
      list_all only_first_without_duration (cards (run_operations enc dec ops st)))"
proof -
  have upd: "findOne cid (cards (snd (updateCardStatus dec now stamp cid sd st)))
        = Some (updatedCard now stamp sd d) \<and>
      butlast (journey (updatedCard now stamp sd d)) = journey d \<and>
      timestamp (last (journey (updatedCard now stamp sd d))) = stamp \<and>
      (journey d = [] \<longrightarrow>
         durationMinutes (last (journey (updatedCard now stamp sd d))) = None) \<and>
      (journey d \<noteq> [] \<longrightarrow>
         (\<exists>m. durationMinutes (last (journey (updatedCard now stamp sd d))) = Some m \<and>
              60000 * m - 30000 \<le> now - timestamp (last (journey d)) \<and>
              now - timestamp (last (journey d)) < 60000 * m + 30000))"
    if a: "truthy (sd_status sd)" "truthy (sd_source sd)" "findOne cid (cards st) = Some d"
  proof -
    have id: "cardId (updatedCard now stamp sd d) = cid"
      using a(3) by (simp add: updatedCard_cardId findOne_Some)
    have "cards (snd (updateCardStatus dec now stamp cid sd st))
            = replace_first cid (updatedCard now stamp sd d) (cards st)"
      using a by (simp add: upd_found)
    then have f: "findOne cid (cards (snd (updateCardStatus dec now stamp cid sd st)))
             = Some (updatedCard now stamp sd d)"
      using a(3) id by (simp add: findOne_replace_first)
    have l: "last (journey (updatedCard now stamp sd d))
               = newStatusEvent stamp (currentStatus d) (computeDuration now (journey d)) sd"
      by (simp add: updatedCard_journey)
    have dur: "durationMinutes (last (journey (updatedCard now stamp sd d)))
               = computeDuration now (journey d)"
      by (simp add: l newStatusEvent_def)
    have none: "journey d = [] \<longrightarrow> computeDuration now (journey d) = None"
      by (simp add: computeDuration_def)
    have some: "journey d \<noteq> [] \<longrightarrow>
        computeDuration now (journey d)
          = Some (math_round_div (now - timestamp (last (journey d))) 60000)"
      by (simp add: computeDuration_def split: list.splits)
    show ?thesis
      using f dur none some math_round_div_bounds [of "now - timestamp (last (journey d))"]
      by (simp add: updatedCard_journey newStatusEvent_def)
  qed
  have new: "map durationMinutes (journey (newCardJourney enc now0 cd)) = [None]"
    by (simp add: newCardJourney_def Let_def)
  show ?thesis
    using upd new only_first_new [of enc now0 cd] run_operations_only_first [of st enc dec ops]
    by blast
qed

theorem duration_is_stored_on_the_appended_event_witness:
  "truthy (sd_status (demo_advance ''DELIVERED'' None)) \<and>
   truthy (sd_source (demo_advance ''DELIVERED'' None)) \<and>
   findOne ''CRD001'' (cards approved_state)
     = Some (demo_card ''APPROVED'' [demo_event ''APPROVED'' 0 None None]) \<and>
   list_all only_first_without_duration (cards approved_state) \<and>
   map (\<lambda>d. map (\<lambda>e. (stage e, durationMinutes e)) (journey d))
     (cards (run_operations demo_enc demo_dec
        [Advance ''CRD001'' (demo_advance ''IN_TRANSIT'' None) 7200000 7200001,
         Advance ''CRD001'' (demo_advance ''DELIVERED'' None) 180000000 180000004]
        approved_state))
     = [[(''APPROVED'', None), (''IN_TRANSIT'', Some 120), (''DELIVERED'', Some 2880)]] \<and>
   list_all only_first_without_duration
     (cards (run_operations demo_enc demo_dec
        [Advance ''CRD001'' (demo_advance ''IN_TRANSIT'' None) 7200000 7200001,
         Advance ''CRD001'' (demo_advance ''DELIVERED'' None) 180000000 180000004]
        approved_state)) \<and>
   map (\<lambda>e. (stage e, durationMinutes e))
     (journey (updatedCard 180000000 180000004 (demo_advance ''DELIVERED'' None)
        (demo_card ''APPROVED'' [demo_event ''APPROVED'' 0 None None])))
     = [(''APPROVED'', None), (''DELIVERED'', Some 3000)] \<and>
   findOne ''CRD001''
     (cards (snd (updateCardStatus demo_dec 180000000 180000004 ''CRD001''
                    (demo_advance ''DELIVERED'' None) approved_state)))
     = Some (updatedCard 180000000 180000004 (demo_advance ''DELIVERED'' None)
               (demo_card ''APPROVED'' [demo_event ''APPROVED'' 0 None None]))"
proof -
  have h1: "truthy (sd_status (demo_advance ''DELIVERED'' None))" by code_simp
  have h2: "truthy (sd_source (demo_advance ''DELIVERED'' None))" by code_simp
  have h3: "findOne ''CRD001'' (cards approved_state)
     = Some (demo_card ''APPROVED'' [demo_event ''APPROVED'' 0 None None])" by code_simp
  have h4: "list_all only_first_without_duration (cards approved_state)" by code_simp
  have e1: "map (\<lambda>e. (stage e, durationMinutes e))
     (journey (updatedCard 180000000 180000004 (demo_advance ''DELIVERED'' None)
        (demo_card ''APPROVED'' [demo_event ''APPROVED'' 0 None None])))
     = [(''APPROVED'', None), (''DELIVERED'', Some 3000)]" by code_simp
  have e2: "map (\<lambda>d. map (\<lambda>e. (stage e, durationMinutes e)) (journey d))
     (cards (run_operations demo_enc demo_dec
        [Advance ''CRD001'' (demo_advance ''IN_TRANSIT'' None) 7200000 7200001,
         Advance ''CRD001'' (demo_advance ''DELIVERED'' None) 180000000 180000004]
        approved_state))
     = [[(''APPROVED'', None), (''IN_TRANSIT'', Some 120), (''DELIVERED'', Some 2880)]]"
    by code_simp
  show ?thesis
    using h1 h2 h3 h4 e1 e2
      duration_is_stored_on_the_appended_event [of "demo_advance ''DELIVERED'' None" "''CRD001''" approved_state
                "demo_card ''APPROVED'' [demo_event ''APPROVED'' 0 None None]"
                demo_dec 180000000 180000004 demo_enc 0 demo_request
                "[Advance ''CRD001'' (demo_advance ''IN_TRANSIT'' None) 7200000 7200001,
                  Advance ''CRD001'' (demo_advance ''DELIVERED'' None) 180000000 180000004]"]
    by blast
qed

subsection \<open>C4: what the retry counter counts\<close>

lemma retry_counted_updatedCard:
  "retry_counted d \<Longrightarrow> retry_counted (updatedCard now stamp sd d)"
  by (simp add: retry_counted_def failure_reason_events_def updatedCard_retryCount
                updatedCard_journey newStatusEvent_def)

lemma retry_counted_new: "retry_counted (newCardJourney enc now cd)"
  by (simp add: retry_counted_def failure_reason_events_def newCardJourney_def Let_def)

lemma retry_counted_stamps [simp]:
  "retry_counted (d\<lparr>createdAt := t, updatedAt := u\<rparr>) = retry_counted d"
  by (simp add: retry_counted_def failure_reason_events_def)

lemma cards_updateCardStatus_retry_counted:
  assumes "list_all retry_counted (cards st)"
  shows "list_all retry_counted (cards (snd (updateCardStatus dec now stamp cid sd st)))"
proof (cases "findOne cid (cards st)")
  case None
  then show ?thesis using assms by (simp add: cards_updateCardStatus)
next
  case (Some d)
  then have "d \<in> set (cards st)" by (simp add: findOne_Some)
  then have "retry_counted d" using assms by (simp add: list_all_iff)
  then have "retry_counted (updatedCard now stamp sd d)" by (rule retry_counted_updatedCard)
  then show ?thesis
    using assms Some by (simp add: cards_updateCardStatus list_all_replace_first)
qed

lemma run_operation_retry_counted:
  "list_all retry_counted (cards st) \<Longrightarrow>
     list_all retry_counted (cards (run_operation enc dec op st))"
proof (cases op)
  case (Create cd now)
  then show "list_all retry_counted (cards st) \<Longrightarrow> ?thesis"
    using cards_createCard [of enc dec now cd st] by (auto simp: retry_counted_new)
next
  case (Advance cid sd now stamp)
  then show "list_all retry_counted (cards st) \<Longrightarrow> ?thesis"
    by (simp add: cards_updateCardStatus_retry_counted)
qed

lemma run_operations_retry_counted:
  "list_all retry_counted (cards st) \<Longrightarrow>
     list_all retry_counted (cards (run_operations enc dec ops st))"
  unfolding run_operations_def
  by (induction ops arbitrary: st) (simp_all add: run_operation_retry_counted)

text \<open>
  C4, as the specification states it: the counter goes up by one on every advance to a
  failure stage and on nothing else, so it equals the number of failure-stage events. The
  source increments under \<open>if (failureReason)\<close>: the guard looks at the request's failure
  reason, not at the target stage. A card out for delivery is advanced to DELIVERY_FAILED
  by a request without a reason: one failure-stage event, counter 0. The same card is
  advanced to DELIVERED by a request that carries a reason: no failure-stage event,
  counter 1.
\<close>

theorem c4_counter_follows_the_reason_not_the_stage:
  "map (\<lambda>d. (retryCount d, failure_stage_events d))
     (cards (snd (updateCardStatus demo_dec 7200000 7200001 ''CRD001''
                    (demo_advance ''DELIVERY_FAILED'' None) out_for_delivery_state)))
     = [(0, 1)] \<and>
   map (\<lambda>d. (retryCount d, failure_stage_events d))
     (cards (snd (updateCardStatus demo_dec 7200000 7200001 ''CRD001''
                    (demo_advance ''DELIVERED'' (Some ''left with neighbour''))
                    out_for_delivery_state)))
     = [(1, 0)]"
  by code_simp

text \<open>
  C4, amended to what the source does: the document \<open>createCard\<close> builds starts with
  counter 0; a successful \<open>updateCardStatus\<close> raises the counter of the card by exactly one
  when its request carries a non-empty failure reason and leaves it alone otherwise,
  whatever the target stage; the method \<open>addJourneyEvent\<close> leaves it alone. Hence, under
  any sequence of \<open>createCard\<close> and \<open>updateCardStatus\<close> calls, the counter of every
  journey stays equal to the number of its events that carry a non-empty failure reason.
\<close>

theorem retryCount_counts_events_with_a_failure_reason:
  "retryCount (newCardJourney enc now0 cd) = 0 \<and>
   retry_counted (newCardJourney enc now0 cd) \<and>
   retryCount (addJourneyEvent_doc ev d) = retryCount d \<and>
   (truthy (sd_status sd) \<and> truthy (sd_source sd) \<and> findOne cid (cards st) = Some d \<longrightarrow>
      map_option retryCount
        (findOne cid (cards (snd (updateCardStatus dec now stamp cid sd st))))
      = Some (retryCount d + (if truthy (sd_failureReason sd) then 1 else 0))) \<and>
   (list_all retry_counted (cards st) \<longrightarrow>
      list_all retry_counted (cards (run_operations enc dec ops st)))"
proof -
  have upd: "map_option retryCount
        (findOne cid (cards (snd (updateCardStatus dec now stamp cid sd st))))
      = Some (retryCount d + (if truthy (sd_failureReason sd) then 1 else 0))"
    if "truthy (sd_status sd)" "truthy (sd_source sd)" "findOne cid (cards st) = Some d"
  proof -
    have "cardId (updatedCard now stamp sd d) = cid"
      using that(3) by (simp add: updatedCard_cardId findOne_Some)
    then show ?thesis
      using that by (simp add: upd_found findOne_replace_first updatedCard_retryCount)
  qed
  have add: "retryCount (addJourneyEvent_doc ev d) = retryCount d"
    by (simp add: addJourneyEvent_doc_def Let_def)
  have new: "retryCount (newCardJourney enc now0 cd) = 0"
    by (simp add: newCardJourney_def Let_def)
  show ?thesis
    using upd add new retry_counted_new run_operations_retry_counted by blast
qed

theorem retryCount_counts_events_with_a_failure_reason_witness:
  "truthy (sd_status (demo_advance ''DELIVERY_FAILED'' (Some ''address not found''))) \<and>
   truthy (sd_source (demo_advance ''DELIVERY_FAILED'' (Some ''address not found''))) \<and>
   findOne ''CRD001'' (cards out_for_delivery_state)
      = Some (demo_card ''OUT_FOR_DELIVERY''
          [demo_event ''APPROVED'' 0 None None,
           demo_event ''OUT_FOR_DELIVERY'' 3600000 (Some ''APPROVED'') (Some 60)]) \<and>
   list_all retry_counted (cards out_for_delivery_state) \<and>
   map_option retryCount
      (findOne ''CRD001'' (cards (snd (updateCardStatus demo_dec 7200000 7200001 ''CRD001''
          (demo_advance ''DELIVERY_FAILED'' (Some ''address not found''))
          out_for_delivery_state))))
      = Some 1 \<and>
   list_all retry_counted
      (cards (run_operations demo_enc demo_dec
         [Advance ''CRD001'' (demo_advance ''DELIVERY_FAILED'' (Some ''address not found''))
            7200000 7200001]
         out_for_delivery_state))"
proof -
  have h1: "truthy (sd_status (demo_advance ''DELIVERY_FAILED'' (Some ''address not found'')))"
    by code_simp
  have h2: "truthy (sd_source (demo_advance ''DELIVERY_FAILED'' (Some ''address not found'')))"
    by code_simp
  have h3: "findOne ''CRD001'' (cards out_for_delivery_state)
      = Some (demo_card ''OUT_FOR_DELIVERY''
          [demo_event ''APPROVED'' 0 None None,
           demo_event ''OUT_FOR_DELIVERY'' 3600000 (Some ''APPROVED'') (Some 60)])"
    by code_simp
  have h5: "list_all retry_counted (cards out_for_delivery_state)"
    by code_simp
  have r: "retryCount (demo_card ''OUT_FOR_DELIVERY''
          [demo_event ''APPROVED'' 0 None None,
           demo_event ''OUT_FOR_DELIVERY'' 3600000 (Some ''APPROVED'') (Some 60)]) = 0"
    by code_simp
  have f: "truthy (sd_failureReason
             (demo_advance ''DELIVERY_FAILED'' (Some ''address not found'')))"
    by code_simp
  show ?thesis
    using h1 h2 h3 h5 r f
      retryCount_counts_events_with_a_failure_reason
          [of demo_enc 0 demo_request
             "demo_event ''DELIVERED'' 1 None None"
             "demo_card ''OUT_FOR_DELIVERY''
                [demo_event ''APPROVED'' 0 None None,
                 demo_event ''OUT_FOR_DELIVERY'' 3600000 (Some ''APPROVED'') (Some 60)]"
             "demo_advance ''DELIVERY_FAILED'' (Some ''address not found'')"
             "''CRD001''" out_for_delivery_state demo_dec 7200000 7200001
             "[Advance ''CRD001''
                 (demo_advance ''DELIVERY_FAILED'' (Some ''address not found''))
                 7200000 7200001]"]
    by simp
qed

subsection \<open>C5: the journey a create call leaves behind\<close>

text \<open>
  C5: a successful create yields a journey with exactly one event, in the initial stage
  and with no previous stage, and the current stage is that initial stage. The document
  \<open>createCard\<close> builds has that shape, with the stage written as \<open>USER_CREATED\<close>; but the
  schema of models/CardJourney.js does not list \<open>USER_CREATED\<close> among the stages (its
  first stage, and the default of \<open>currentStatus\<close>, is \<open>APPROVED\<close>), so \<open>save()\<close> rejects
  the document. Every call of \<open>createCard\<close> therefore ends in an error and leaves the state
  as it was; the sample request on an empty collection ends in \<open>ValidationError\<close>.
\<close>

theorem createCard_is_rejected_by_the_schema:
  "isl (fst (createCard enc dec now cd st)) \<and>
   snd (createCard enc dec now cd st) = st \<and>
   currentStatus (newCardJourney enc now cd) = ''USER_CREATED'' \<and>
   map (\<lambda>e. (stage e, previousStage e)) (journey (newCardJourney enc now cd))
     = [(''USER_CREATED'', None)] \<and>
   ''USER_CREATED'' \<notin> set stage_enum \<and>
   createCard demo_enc demo_dec 1000 demo_request empty_state
     = (Inl ValidationError, empty_state)"
proof -
  have "createCard demo_enc demo_dec 1000 demo_request empty_state
          = (Inl ValidationError, empty_state)"
    by code_simp
  moreover have "''USER_CREATED'' \<notin> set stage_enum"
    by (simp add: stage_enum_def)
  moreover have "currentStatus (newCardJourney enc now cd) = ''USER_CREATED''"
    "map (\<lambda>e. (stage e, previousStage e)) (journey (newCardJourney enc now cd))
       = [(''USER_CREATED'', None)]"
    by (simp_all add: newCardJourney_def Let_def)
  ultimately show ?thesis
    using createCard_outcomes [of enc dec now cd st] by auto
qed

theorem createCard_is_rejected_by_the_schema_witness:
  "truthy (cd_cardId demo_request) \<and> truthy (cd_customerId demo_request) \<and>
   truthy (cd_mobileNumber demo_request) \<and> truthy (cd_panMasked demo_request) \<and>
   isl (fst (createCard demo_enc demo_dec 1000 demo_request empty_state)) \<and>
   snd (createCard demo_enc demo_dec 1000 demo_request empty_state) = empty_state"
proof -
  have "truthy (cd_cardId demo_request) \<and> truthy (cd_customerId demo_request) \<and>
        truthy (cd_mobileNumber demo_request) \<and> truthy (cd_panMasked demo_request)"
    by code_simp
  then show ?thesis
    using createCard_is_rejected_by_the_schema
            [of demo_enc demo_dec 1000 demo_request empty_state]
    by blast
qed

subsection \<open>The rows of the bottleneck analysis\<close>

lemma analysis_rows_member:
  assumes "r \<in> set (analysis_rows w cs)"
  shows "stage_durations (timed_events w cs) (row_stage r) \<noteq> [] \<and>
         5 \<le> length (stage_durations (timed_events w cs) (row_stage r)) \<and>
         row_count r = length (stage_durations (timed_events w cs) (row_stage r)) \<and>
         row_minDuration r = Min (set (stage_durations (timed_events w cs) (row_stage r))) \<and>
         row_maxDuration r = Max (set (stage_durations (timed_events w cs) (row_stage r))) \<and>
         row_delayedCount r = delayed_count (stage_durations (timed_events w cs) (row_stage r)) \<and>
         row_severity r = severity_switch (row_delayedCount r) (row_count r) \<and>
         30 < row_avgDuration r"
  using assms
  by (auto simp: analysis_rows_def group_stage_def project_row_def Let_def)

lemma calculateMedian_eq:
  "calculateMedian r = (row_minDuration r + row_maxDuration r + 1) div 2"
  unfolding calculateMedian_def math_round_div_def by presburger

subsection \<open>C6: the median of the summary\<close>

text \<open>
  C6, as the specification states it: the summary holds the nearest-rank 95th percentile
  and the true median of the sorted durations. For the median the source takes
  \<open>calculateMedian\<close>, the rounded middle between the smallest and the largest duration.
  For a stage with the five durations 40, 50, 60, 70 and 1000 the summary's median is
  520; the median of the sample is 60.
\<close>

theorem c6_median_is_not_the_sample_median:
  "map (\<lambda>b. (b_stage b, totalSampleSize b, medianDurationMinutes b))
     (bottleneck_summaries 0 [five_events_card]) = [(''IN_TRANSIT'', 5, 520)] \<and>
   stage_durations (timed_events 0 [five_events_card]) ''IN_TRANSIT'' = [40, 50, 60, 70, 1000] \<and>
   true_median [40, 50, 60, 70, 1000] = 60"
  by code_simp

text \<open>
  C6, amended to what the source does for the median: for every stage group that
  survives the minimum-sample filter and reaches a summary, the group has at least 5
  durations and the summary's median is the middle between the smallest and the largest
  of them, a half rounded up; it lies between the two. Nothing is said of the 95th
  percentile.
\<close>

theorem median_is_midpoint_of_min_and_max:
  assumes "b \<in> set (bottleneck_summaries w cs)"
  shows "5 \<le> length (stage_durations (timed_events w cs) (b_stage b)) \<and>
         medianDurationMinutes b =
           (Min (set (stage_durations (timed_events w cs) (b_stage b))) +
            Max (set (stage_durations (timed_events w cs) (b_stage b))) + 1) div 2 \<and>
         Min (set (stage_durations (timed_events w cs) (b_stage b))) \<le> medianDurationMinutes b \<and>
         medianDurationMinutes b \<le> Max (set (stage_durations (timed_events w cs) (b_stage b)))"
proof -
  obtain r where r: "r \<in> set (analysis_rows w cs)" and b: "b = summary_of r"
    using assms by (auto simp: bottleneck_summaries_def)
  let ?ds = "stage_durations (timed_events w cs) (row_stage r)"
  have m: "?ds \<noteq> []" "5 \<le> length ?ds" "row_minDuration r = Min (set ?ds)"
    "row_maxDuration r = Max (set ?ds)"
    using analysis_rows_member [OF r] by simp_all
  have le: "Min (set ?ds) \<le> Max (set ?ds)"
    using m(1) by (simp add: Min_le_iff)
  have med: "medianDurationMinutes b = (Min (set ?ds) + Max (set ?ds) + 1) div 2"
    using m by (simp add: b summary_of_def calculateMedian_eq)
  have st: "b_stage b = row_stage r" by (simp add: b summary_of_def)
  show ?thesis
    unfolding st using m(2) med le by linarith
qed

theorem median_is_midpoint_of_min_and_max_witness:
  "five_events_summary \<in> set (bottleneck_summaries 0 [five_events_card]) \<and>
   stage_durations (timed_events 0 [five_events_card]) ''IN_TRANSIT'' = [40, 50, 60, 70, 1000] \<and>
   medianDurationMinutes five_events_summary = (40 + 1000 + 1) div 2"
proof -
  have h: "five_events_summary \<in> set (bottleneck_summaries 0 [five_events_card])"
    by code_simp
  have e: "stage_durations (timed_events 0 [five_events_card]) ''IN_TRANSIT'' = [40, 50, 60, 70, 1000]"
    by code_simp
  have s: "b_stage five_events_summary = ''IN_TRANSIT''"
    by (simp add: five_events_summary_def)
  show ?thesis
    using h e median_is_midpoint_of_min_and_max [OF h] by (simp add: s)
qed

subsection \<open>C7: the severity of a stage\<close>

text \<open>
  C7: for every row of the analysis, the count is the number of durations of the stage
  in the window, the delayed count is the number of those above 480 minutes, the delay
  ratio is the delayed count over the count, and the severity is critical above 3/10,
  high above 2/10, medium above 1/10 and low otherwise; a row with count 10 and delayed
  count 4 has ratio 4/10 and is critical.
\<close>

theorem severity_follows_delay_ratio:
  assumes "r \<in> set (analysis_rows w cs)"
  shows "row_count r = length (stage_durations (timed_events w cs) (row_stage r)) \<and>
         row_delayedCount r =
           length (filter (\<lambda>x. 480 < x) (stage_durations (timed_events w cs) (row_stage r))) \<and>
         delayRatio (row_delayedCount r) (row_count r)
           = of_nat (row_delayedCount r) / of_nat (row_count r) \<and>
         row_severity r =
           (if delayRatio (row_delayedCount r) (row_count r) > 3 / 10 then ''critical''
            else if delayRatio (row_delayedCount r) (row_count r) > 2 / 10 then ''high''
            else if delayRatio (row_delayedCount r) (row_count r) > 1 / 10 then ''medium''
            else ''low'') \<and>
         (row_count r = 10 \<and> row_delayedCount r = 4 \<longrightarrow>
            delayRatio (row_delayedCount r) (row_count r) = 4 / 10 \<and>
            row_severity r = ''critical'')"
proof -
  have m: "row_count r = length (stage_durations (timed_events w cs) (row_stage r))"
    "row_delayedCount r = delayed_count (stage_durations (timed_events w cs) (row_stage r))"
    "row_severity r = severity_switch (row_delayedCount r) (row_count r)"
    using analysis_rows_member [OF assms] by simp_all
  have d: "row_delayedCount r =
           length (filter (\<lambda>x. 480 < x) (stage_durations (timed_events w cs) (row_stage r)))"
    using m(2) by (simp add: delayed_count_def)
  have q: "delayRatio (row_delayedCount r) (row_count r)
           = of_nat (row_delayedCount r) / of_nat (row_count r)"
    by (simp add: delayRatio_def)
  have sev: "row_severity r =
           (if delayRatio (row_delayedCount r) (row_count r) > 3 / 10 then ''critical''
            else if delayRatio (row_delayedCount r) (row_count r) > 2 / 10 then ''high''
            else if delayRatio (row_delayedCount r) (row_count r) > 1 / 10 then ''medium''
            else ''low'')"
    using m(3) by (simp only: severity_switch_def)
  have ex: "delayRatio 4 10 = 4 / 10" "severity_switch 4 10 = ''critical''"
    by (simp_all add: delayRatio_def severity_switch_def)
  have ten: "row_count r = 10 \<and> row_delayedCount r = 4 \<longrightarrow>
            delayRatio (row_delayedCount r) (row_count r) = 4 / 10 \<and>
            row_severity r = ''critical''"
  proof
    assume a: "row_count r = 10 \<and> row_delayedCount r = 4"
    then have "row_severity r = severity_switch 4 10" using m(3) by simp
    then show "delayRatio (row_delayedCount r) (row_count r) = 4 / 10 \<and>
            row_severity r = ''critical''"
      using a ex by simp
  qed
  show ?thesis
    using m(1) d q sev ten by blast
qed

theorem severity_follows_delay_ratio_witness:
  "ten_events_row \<in> set (analysis_rows 0 [ten_events_card]) \<and>
   row_count ten_events_row = 10 \<and> row_delayedCount ten_events_row = 4 \<and>
   delayRatio (row_delayedCount ten_events_row) (row_count ten_events_row) = 4 / 10 \<and>
   row_severity ten_events_row = ''critical''"
proof -
  have h: "ten_events_row \<in> set (analysis_rows 0 [ten_events_card])"
    by code_simp
  have c: "row_count ten_events_row = 10" "row_delayedCount ten_events_row = 4"
    by (simp_all add: ten_events_row_def)
  show ?thesis
    using h c severity_follows_delay_ratio [OF h] by blast
qed

subsection \<open>C8: search\<close>

lemma searchCards_short: "length q < 3 \<Longrightarrow> searchCards rx dec q st = Inl QueryTooShort"
  by (simp add: searchCards_def)

lemma searchCriteria_selects: "rx q = Some m \<Longrightarrow> searchCriteria rx q = Inr (selects m q)"
  by (auto simp: searchCriteria_def selects_def fun_eq_iff)

lemma searchCriteria_pan:
  "is_pan_query q \<Longrightarrow> searchCriteria rx q = Inr (selects m q)"
  by (auto simp: searchCriteria_def selects_def is_pan_query_def fun_eq_iff)

lemma searchCriteria_malformed:
  "\<not> is_pan_query q \<Longrightarrow> rx q = None \<Longrightarrow> searchCriteria rx q = Inl InvalidRegExp"
  by (auto simp: searchCriteria_def is_pan_query_def)

lemma searchCards_malformed:
  "3 \<le> length q \<Longrightarrow> \<not> is_pan_query q \<Longrightarrow> rx q = None \<Longrightarrow>
     searchCards rx dec q st = Inl InvalidRegExp"
  by (simp add: searchCards_def searchCriteria_malformed)

lemma newest_first_sorted: "sorted (map (\<lambda>d. - createdAt d) (newest_first ds))"
  by (simp add: newest_first_def)

lemma take_newest:
  assumes "d \<in> set ds" and "d \<notin> set (take n (newest_first ds))"
    and "d' \<in> set (take n (newest_first ds))"
  shows "createdAt d \<le> createdAt d'"
proof -
  let ?xs = "newest_first ds"
  have "d \<in> set ?xs" using assms(1) by simp
  then have "d \<in> set (take n ?xs) \<union> set (drop n ?xs)"
    by (metis append_take_drop_id set_append)
  then have dd: "d \<in> set (drop n ?xs)" using assms(2) by simp
  have "map (\<lambda>d. - createdAt d) ?xs
          = map (\<lambda>d. - createdAt d) (take n ?xs) @ map (\<lambda>d. - createdAt d) (drop n ?xs)"
    by (metis append_take_drop_id map_append)
  then have "sorted (map (\<lambda>d. - createdAt d) (take n ?xs) @ map (\<lambda>d. - createdAt d) (drop n ?xs))"
    using newest_first_sorted [of ds] by simp
  then have "\<forall>x \<in> set (map (\<lambda>d. - createdAt d) (take n ?xs)).
               \<forall>y \<in> set (map (\<lambda>d. - createdAt d) (drop n ?xs)). x \<le> y"
    unfolding sorted_append by blast
  then have "\<forall>a \<in> set (take n ?xs). \<forall>b \<in> set (drop n ?xs). - createdAt a \<le> - createdAt b"
    by simp
  then show ?thesis using dd assms(3) by auto
qed

lemma searchCards_found:
  assumes "3 \<le> length q" and "searchCriteria rx q = Inr crit"
  shows "\<exists>ds. searchCards rx dec q st = Inr (map (sanitizeCardData dec) ds) \<and>
              length ds = min 10 (length (filter crit (cards st))) \<and>
              sorted (map (\<lambda>d. - createdAt d) ds) \<and>
              set ds \<subseteq> {d \<in> set (cards st). crit d} \<and>
              (length (filter crit (cards st)) \<le> 10 \<longrightarrow> set ds = {d \<in> set (cards st). crit d}) \<and>
              (\<forall>d \<in> set (cards st). crit d \<and> d \<notin> set ds \<longrightarrow>
                 (\<forall>d' \<in> set ds. createdAt d \<le> createdAt d'))"
proof -
  let ?ds = "take 10 (newest_first (filter crit (cards st)))"
  have 1: "searchCards rx dec q st = Inr (map (sanitizeCardData dec) ?ds)"
    using assms by (simp add: searchCards_def)
  have 2: "length ?ds = min 10 (length (filter crit (cards st)))" by simp
  have 3: "set ?ds \<subseteq> {d \<in> set (cards st). crit d}"
    using set_take_subset [of 10 "newest_first (filter crit (cards st))"] by auto
  have 4: "length (filter crit (cards st)) \<le> 10 \<longrightarrow> set ?ds = {d \<in> set (cards st). crit d}"
    by auto
  have 5: "sorted (map (\<lambda>d. - createdAt d) ?ds)"
    using newest_first_sorted [of "filter crit (cards st)"]
    by (simp add: take_map [symmetric] sorted_wrt_take)
  have 6: "\<forall>d \<in> set (cards st). crit d \<and> d \<notin> set ?ds \<longrightarrow>
                 (\<forall>d' \<in> set ?ds. createdAt d \<le> createdAt d')"
    using take_newest [of _ "filter crit (cards st)" 10] by auto
  show ?thesis using 1 2 3 4 5 6 by blast
qed

text \<open>
  C8, as the specification states it: a query of at least 3 characters returns exactly
  the journeys whose id, subject id or display name contains it, letter case set aside.
  The source picks the fields from the form of the query, and the card id is looked at
  only for a query that starts with CRD. The specification's own example, the query
  CARD1 against a stored card whose id is CARD1, returns nothing.
\<close>

theorem c8_card_id_is_not_searched:
  "map cardId (cards card1_state) = [''CARD1''] \<and>
   contains_ci ''CARD1'' ''CARD1'' \<and>
   searchCards literal_rx demo_dec ''CARD1'' card1_state = Inr []"
  by code_simp

text \<open>
  C8, amended to what the source does: a query shorter than 3 characters fails with the
  validation error. A query of at least 3 characters selects by its form: starting with
  CRD in any case, the card id must match; else, with a star and at least 8 characters,
  the masked PAN must equal the query, and no pattern is built; else, all digits and at
  least 4 of them, the customer name or the customer id must match; otherwise the
  customer name, the customer id or the application id must match. To match is to pass
  the query's test as a case-insensitive regular expression, which for a query of
  letters and digits is case-insensitive containment; a query of the three pattern kinds
  that is a malformed pattern fails. Otherwise the search returns the sanitized form of
  the selected journeys, newest first, and of the ten newest when there are more: ten or
  the number selected, whichever is smaller, all selected, all of the selected when
  there are at most ten, and no selected journey left out is newer than a returned one.
\<close>

theorem search_selects_by_query_form:
  "(length q < 3 \<longrightarrow> searchCards rx dec q st = Inl QueryTooShort) \<and>
   (3 \<le> length q \<and> \<not> is_pan_query q \<and> rx q = None \<longrightarrow>
      searchCards rx dec q st = Inl InvalidRegExp) \<and>
   (3 \<le> length q \<and> (is_pan_query q \<or> rx q = Some m) \<longrightarrow>
      (\<exists>ds. searchCards rx dec q st = Inr (map (sanitizeCardData dec) ds) \<and>
            length ds = min 10 (length (filter (selects m q) (cards st))) \<and>
            sorted (map (\<lambda>d. - createdAt d) ds) \<and>
            set ds \<subseteq> {d \<in> set (cards st). selects m q d} \<and>
            (length (filter (selects m q) (cards st)) \<le> 10 \<longrightarrow>
               set ds = {d \<in> set (cards st). selects m q d}) \<and>
            (\<forall>d \<in> set (cards st). selects m q d \<and> d \<notin> set ds \<longrightarrow>
               (\<forall>d' \<in> set ds. createdAt d \<le> createdAt d'))))"
proof -
  have crit: "searchCriteria rx q = Inr (selects m q)" if "is_pan_query q \<or> rx q = Some m"
    using that searchCriteria_pan [of q rx m] searchCriteria_selects [of rx q m] by blast
  have "\<exists>ds. searchCards rx dec q st = Inr (map (sanitizeCardData dec) ds) \<and>
            length ds = min 10 (length (filter (selects m q) (cards st))) \<and>
            sorted (map (\<lambda>d. - createdAt d) ds) \<and>
            set ds \<subseteq> {d \<in> set (cards st). selects m q d} \<and>
            (length (filter (selects m q) (cards st)) \<le> 10 \<longrightarrow>
               set ds = {d \<in> set (cards st). selects m q d}) \<and>
            (\<forall>d \<in> set (cards st). selects m q d \<and> d \<notin> set ds \<longrightarrow>
               (\<forall>d' \<in> set ds. createdAt d \<le> createdAt d'))"
    if "3 \<le> length q" "is_pan_query q \<or> rx q = Some m"
    using searchCards_found [OF that(1) crit [OF that(2)], of dec st] by blast
  then show ?thesis
    using searchCards_short [of q rx dec st] searchCards_malformed [of q rx dec st] by blast
qed

theorem search_selects_by_query_form_witness:
  "length ''ab'' < 3 \<and>
   searchCards literal_rx demo_dec ''ab'' approved_state = Inl QueryTooShort \<and>
   3 \<le> length ''asha('' \<and> \<not> is_pan_query ''asha('' \<and>
   searchCards (\<lambda>q. None) demo_dec ''asha('' approved_state = Inl InvalidRegExp \<and>
   3 \<le> length ''4111********1111'' \<and> is_pan_query ''4111********1111'' \<and>
   map (\<lambda>r. map_of r ''cardId'')
     (projr (searchCards (\<lambda>q. None) demo_dec ''4111********1111'' approved_state))
     = [Some (JStr ''CRD001'')] \<and>
   (\<exists>ds. searchCards (\<lambda>q. None) demo_dec ''4111********1111'' approved_state
            = Inr (map (sanitizeCardData demo_dec) ds) \<and>
         set ds = {d \<in> set (cards approved_state).
                    selects (contains_ci ''4111********1111'') ''4111********1111'' d}) \<and>
   3 \<le> length ''2024'' \<and> literal_rx ''2024'' = Some (contains_ci ''2024'') \<and>
   map (\<lambda>r. map_of r ''customerId'')
     (projr (searchCards literal_rx demo_dec ''2024'' digits_state))
     = [Some (JStr ''CUST2024'')] \<and>
   3 \<le> length ''asha'' \<and> literal_rx ''asha'' = Some (contains_ci ''asha'') \<and>
   map (\<lambda>r. map_of r ''customerName'')
     (projr (searchCards literal_rx demo_dec ''asha'' approved_state))
     = [Some (JStr ''Asha Rao'')] \<and>
   3 \<le> length ''crd1'' \<and> literal_rx ''crd1'' = Some (contains_ci ''crd1'') \<and>
   length (filter (selects (contains_ci ''crd1'') ''crd1'') (cards twelve_cards_state)) = 12 \<and>
   map (\<lambda>r. map_of r ''createdAt'')
     (projr (searchCards literal_rx demo_dec ''crd1'' twelve_cards_state))
     = map (\<lambda>t. Some (JDate t)) [12, 11, 10, 9, 8, 7, 6, 5, 4, 3] \<and>
   (\<exists>ds. searchCards literal_rx demo_dec ''crd1'' twelve_cards_state
            = Inr (map (sanitizeCardData demo_dec) ds) \<and>
         length ds = 10 \<and>
         (\<forall>d \<in> set (cards twelve_cards_state).
            selects (contains_ci ''crd1'') ''crd1'' d \<and> d \<notin> set ds \<longrightarrow>
            (\<forall>d' \<in> set ds. createdAt d \<le> createdAt d')))"
proof -
  have a1: "length ''ab'' < 3" by simp
  have a2: "searchCards literal_rx demo_dec ''ab'' approved_state = Inl QueryTooShort"
    using a1 search_selects_by_query_form [of "''ab''" literal_rx demo_dec approved_state undefined] by blast
  have b1: "3 \<le> length ''asha(''" by simp
  have b2: "\<not> is_pan_query ''asha(''" by code_simp
  have b3: "searchCards (\<lambda>q. None) demo_dec ''asha('' approved_state = Inl InvalidRegExp"
    using b1 b2 search_selects_by_query_form [of "''asha(''" "\<lambda>q. None" demo_dec approved_state undefined] by blast
  have c1: "3 \<le> length ''4111********1111''" by simp
  have c2: "is_pan_query ''4111********1111''" by code_simp
  have c3: "map (\<lambda>r. map_of r ''cardId'')
     (projr (searchCards (\<lambda>q. None) demo_dec ''4111********1111'' approved_state))
     = [Some (JStr ''CRD001'')]" by code_simp
  have c4: "length (filter (selects (contains_ci ''4111********1111'') ''4111********1111'')
                      (cards approved_state)) \<le> 10"
    by (simp add: approved_state_def demo_state_def)
  have c5: "\<exists>ds. searchCards (\<lambda>q. None) demo_dec ''4111********1111'' approved_state
            = Inr (map (sanitizeCardData demo_dec) ds) \<and>
         set ds = {d \<in> set (cards approved_state).
                    selects (contains_ci ''4111********1111'') ''4111********1111'' d}"
    using c1 c2 c4
      search_selects_by_query_form
        [of "''4111********1111''" "\<lambda>q. None" demo_dec approved_state
            "contains_ci ''4111********1111''"]
    by blast
  have d1: "3 \<le> length ''2024''" by simp
  have d2: "literal_rx ''2024'' = Some (contains_ci ''2024'')" by (simp add: literal_rx_def)
  have d3: "map (\<lambda>r. map_of r ''customerId'')
     (projr (searchCards literal_rx demo_dec ''2024'' digits_state))
     = [Some (JStr ''CUST2024'')]" by code_simp
  have e1: "3 \<le> length ''asha''" by simp
  have e2: "literal_rx ''asha'' = Some (contains_ci ''asha'')" by (simp add: literal_rx_def)
  have e3: "map (\<lambda>r. map_of r ''customerName'')
     (projr (searchCards literal_rx demo_dec ''asha'' approved_state))
     = [Some (JStr ''Asha Rao'')]" by code_simp
  have f1: "3 \<le> length ''crd1''" by simp
  have f2: "literal_rx ''crd1'' = Some (contains_ci ''crd1'')" by (simp add: literal_rx_def)
  have f3: "length (filter (selects (contains_ci ''crd1'') ''crd1'') (cards twelve_cards_state)) = 12"
    by code_simp
  have f4: "map (\<lambda>r. map_of r ''createdAt'')
     (projr (searchCards literal_rx demo_dec ''crd1'' twelve_cards_state))
     = map (\<lambda>t. Some (JDate t)) [12, 11, 10, 9, 8, 7, 6, 5, 4, 3]" by code_simp
  obtain ds where ds: "searchCards literal_rx demo_dec ''crd1'' twelve_cards_state
            = Inr (map (sanitizeCardData demo_dec) ds)"
      "length ds = min 10 (length (filter (selects (contains_ci ''crd1'') ''crd1'')
                                     (cards twelve_cards_state)))"
      "\<forall>d \<in> set (cards twelve_cards_state).
            selects (contains_ci ''crd1'') ''crd1'' d \<and> d \<notin> set ds \<longrightarrow>
            (\<forall>d' \<in> set ds. createdAt d \<le> createdAt d')"
    using f1 f2 search_selects_by_query_form [of "''crd1''" literal_rx demo_dec twelve_cards_state "contains_ci ''crd1''"]
    by blast
  have f5: "\<exists>ds. searchCards literal_rx demo_dec ''crd1'' twelve_cards_state
            = Inr (map (sanitizeCardData demo_dec) ds) \<and>
         length ds = 10 \<and>
         (\<forall>d \<in> set (cards twelve_cards_state).
            selects (contains_ci ''crd1'') ''crd1'' d \<and> d \<notin> set ds \<longrightarrow>
            (\<forall>d' \<in> set ds. createdAt d \<le> createdAt d'))"
    using ds f3 by (intro exI [of _ ds]) simp
  show ?thesis
    using a1 a2 b1 b2 b3 c1 c2 c3 c5 d1 d2 d3 e1 e2 e3 f1 f2 f3 f4 f5 by blast
qed

subsection \<open>C9: what a broadcast does to each subscriber\<close>

lemma handles_broadcast_loop: "handle ` set (broadcast_loop m cs) \<subseteq> handle ` set cs"
  by (induction cs) auto

lemma broadcast_loop_member:
  assumes "distinct (map handle cs)" and "c \<in> set cs"
  shows "(readyState c = OPEN \<and> \<not> sendThrows c \<longrightarrow>
            c\<lparr>inbox := inbox c @ [m]\<rparr> \<in> set (broadcast_loop m cs)) \<and>
         (readyState c = OPEN \<and> sendThrows c \<longrightarrow>
            handle c \<notin> handle ` set (broadcast_loop m cs)) \<and>
         (readyState c \<noteq> OPEN \<longrightarrow> c \<in> set (broadcast_loop m cs))"
  using assms
proof (induction cs)
  case Nil
  then show ?case by simp
next
  case (Cons a cs)
  have sub: "handle ` set (broadcast_loop m cs) \<subseteq> handle ` set cs"
    by (rule handles_broadcast_loop)
  show ?case
  proof (cases "c = a")
    case True
    then have "handle c \<notin> handle ` set cs" using Cons.prems(1) by auto
    then have "handle c \<notin> handle ` set (broadcast_loop m cs)" using sub by blast
    then show ?thesis using True by auto
  next
    case False
    then have in_cs: "c \<in> set cs" using Cons.prems(2) by simp
    have d: "distinct (map handle cs)" using Cons.prems(1) by simp
    have ne: "handle a \<noteq> handle c" using Cons.prems(1) in_cs by auto
    show ?thesis using Cons.IH [OF d in_cs] ne by auto
  qed
qed

text \<open>
  C9, as the specification states it: a handle receives the event exactly when its
  transport is writable, and a handle whose write fails or whose transport is not
  writable is removed during that broadcast. The loop of \<open>broadcast\<close> only looks inside
  \<open>if (client.readyState === WebSocket.OPEN)\<close>; a handle that is not open is skipped and
  stays in the set, and an open handle whose \<open>send\<close> throws receives nothing. With an open
  subscriber 1, a closed subscriber 2 and an open subscriber 3 whose \<open>send\<close> throws, the
  set after the broadcast still holds the closed subscriber 2.
\<close>

theorem c9_closed_handle_stays_in_the_set:
  "map (\<lambda>c. (handle c, readyState c, sendThrows c)) three_clients
     = [(1, OPEN, False), (2, CLOSED, False), (3, OPEN, True)] \<and>
   map (\<lambda>c. (handle c, readyState c, length (inbox c)))
     (connectedClients (broadcast 5 ''status_updated'' [] (demo_state [] three_clients)))
     = [(1, OPEN, 1), (2, CLOSED, 0)]"
  by code_simp

text \<open>
  C9, amended to what the source does: for every broadcast and every handle of the set,
  an open handle whose write does not throw receives the serialised event, once, and
  stays; an open handle whose write throws is removed from the set during the broadcast;
  a handle that is not open receives nothing and stays in the set as it is, and it is the
  periodic sweep that removes it. Nothing is retried or queued.
\<close>

theorem broadcast_per_subscriber:
  assumes "distinct (map handle (connectedClients st))" and "c \<in> set (connectedClients st)"
  shows "(readyState c = OPEN \<and> \<not> sendThrows c \<longrightarrow>
            c\<lparr>inbox := inbox c @ [\<lparr>msg_type = ty, msg_data = dat, msg_timestamp = now\<rparr>]\<rparr>
              \<in> set (connectedClients (broadcast now ty dat st))) \<and>
         (readyState c = OPEN \<and> sendThrows c \<longrightarrow>
            handle c \<notin> handle ` set (connectedClients (broadcast now ty dat st))) \<and>
         (readyState c \<noteq> OPEN \<longrightarrow>
            c \<in> set (connectedClients (broadcast now ty dat st)) \<and>
            handle c \<notin> handle ` set (cleanup_sweep (connectedClients st)))"
proof -
  have "readyState c \<noteq> OPEN \<longrightarrow> handle c \<notin> handle ` set (cleanup_sweep (connectedClients st))"
  proof
    assume n: "readyState c \<noteq> OPEN"
    show "handle c \<notin> handle ` set (cleanup_sweep (connectedClients st))"
    proof
      assume "handle c \<in> handle ` set (cleanup_sweep (connectedClients st))"
      then obtain c' where c': "c' \<in> set (connectedClients st)" "readyState c' = OPEN"
          "handle c' = handle c"
        by (auto simp: cleanup_sweep_def)
      then have "c' = c" using assms by (meson distinct_map inj_onD)
      then show False using n c' by simp
    qed
  qed
  then show ?thesis
    using broadcast_loop_member [OF assms] by (simp add: broadcast_def)
qed

theorem broadcast_per_subscriber_witness:
  "distinct (map handle (connectedClients (demo_state [] three_clients))) \<and>
   (demo_client 1 OPEN False)\<lparr>inbox := [\<lparr>msg_type = ''status_updated'', msg_data = [],
                                            msg_timestamp = 5\<rparr>]\<rparr>
     \<in> set (connectedClients (broadcast 5 ''status_updated'' [] (demo_state [] three_clients))) \<and>
   3 \<notin> handle ` set (connectedClients
                        (broadcast 5 ''status_updated'' [] (demo_state [] three_clients))) \<and>
   demo_client 2 CLOSED False
     \<in> set (connectedClients (broadcast 5 ''status_updated'' [] (demo_state [] three_clients))) \<and>
   2 \<notin> handle ` set (cleanup_sweep (connectedClients (demo_state [] three_clients)))"
proof -
  have d: "distinct (map handle (connectedClients (demo_state [] three_clients)))"
    by (simp add: demo_state_def three_clients_def demo_client_def)
  have m1: "demo_client 1 OPEN False \<in> set (connectedClients (demo_state [] three_clients))"
    and m2: "demo_client 2 CLOSED False \<in> set (connectedClients (demo_state [] three_clients))"
    and m3: "demo_client 3 OPEN True \<in> set (connectedClients (demo_state [] three_clients))"
    by (simp_all add: demo_state_def three_clients_def)
  show ?thesis
    using d
      broadcast_per_subscriber [OF d m1, of "''status_updated''" "[]" 5]
      broadcast_per_subscriber [OF d m2, of "''status_updated''" "[]" 5]
      broadcast_per_subscriber [OF d m3, of "''status_updated''" "[]" 5]
    by (simp add: demo_client_def)
qed

subsection \<open>C10: what a returned card shows of the mobile number and the address\<close>







lemma createCard_returns:
  "fst (createCard enc dec now cd st) = Inr r \<Longrightarrow> r = sanitizeCardData dec (newCardJourney enc now cd)"
  by (auto simp: createCard_def Let_def split: if_splits sum.splits save_error.splits)







end
